theory Spec2Isabelle
  imports Complex_Main "HOL-Library.Sublist"
begin

section \<open>Skill permissions: the policy and the decision\<close>

text \<open>
  The plugin keeps one configuration object (\<open>interface PluginConfig\<close>). The TypeScript
  union \<open>'allow' | 'deny'\<close> is erased at run time, so \<open>defaultPolicy\<close> is a string; the
  other fields have the types the interface declares. JavaScript strings are modelled as
  \<open>string\<close>, one \<open>char\<close> per code unit. A JavaScript number is a finite value or an
  infinity (a JSON literal out of the range of a double parses to one); the program only
  ever passes a number on or tests it for truthiness.
\<close>

datatype number = Num rat | PosInfinity | NegInfinity

record PluginConfig =
  port :: number
  password :: string
  defaultPolicy :: string
  allowedUsers :: "string list"
  deniedUsers :: "string list"
  logInstallAttempts :: bool

text \<open>The value returned by \<open>canInstallSkill\<close>: \<open>{ allowed: boolean; reason: string }\<close>.\<close>

record Decision =
  allowed :: bool
  reason :: string

subsection \<open>String primitives of the host language\<close>

text \<open>
  \<open>s.includes(t)\<close>: \<open>t\<close> occurs in \<open>s\<close> as a contiguous run of characters. The search
  tries every start position of \<open>s\<close>, the end of the string included.
\<close>

fun str_includes :: "string \<Rightarrow> string \<Rightarrow> bool" where
  "str_includes [] t = (t = [])"
| "str_includes (c # s) t = (prefix t (c # s) \<or> str_includes s t)"

text \<open>
  \<open>userId.replace(/^(whatsapp:|telegram:|discord:)/, '')\<close>: the pattern is anchored at the
  start and has no \<open>g\<close> flag, so at most one match, at position 0, is replaced by the
  empty string; the alternatives are tried from left to right.
\<close>

definition normalizeUserId :: "string \<Rightarrow> string" where
  "normalizeUserId userId =
     (if prefix ''whatsapp:'' userId then drop (length ''whatsapp:'') userId
      else if prefix ''telegram:'' userId then drop (length ''telegram:'') userId
      else if prefix ''discord:'' userId then drop (length ''discord:'') userId
      else userId)"

subsection \<open>canInstallSkill\<close>

text \<open>The predicate passed to \<open>some\<close> on both lists:
  \<open>u => normalizedId.includes(u) || u.includes(normalizedId)\<close>.\<close>

definition matchesEntry :: "string \<Rightarrow> string \<Rightarrow> bool" where
  "matchesEntry normalizedId u = (str_includes normalizedId u \<or> str_includes u normalizedId)"

definition canInstallSkill :: "PluginConfig \<Rightarrow> string \<Rightarrow> Decision" where
  "canInstallSkill config userId =
     (let normalizedId = normalizeUserId userId in
      if list_ex (matchesEntry normalizedId) (deniedUsers config)
      then \<lparr>allowed = False, reason = ''Benutzer ist auf der Sperrliste''\<rparr>
      else if list_ex (matchesEntry normalizedId) (allowedUsers config)
      then \<lparr>allowed = True, reason = ''Benutzer ist auf der Whitelist''\<rparr>
      else if defaultPolicy config = ''allow''
      then \<lparr>allowed = True, reason = ''Standard-Richtlinie: Erlaubt''\<rparr>
      else \<lparr>allowed = False,
             reason = ''Standard-Richtlinie: Verweigert (nur Whitelist-Benutzer)''\<rparr>)"

section \<open>JSON values\<close>

text \<open>
  What \<open>JSON.parse\<close> returns. An object is the list of its own properties, keys
  distinct, in insertion order.
\<close>

datatype json =
    JNull
  | JBool bool
  | JNum number
  | JStr string
  | JArr "json list"
  | JObj "(string \<times> json) list"

text \<open>
  \<open>JSON.parse\<close> and \<open>JSON.stringify\<close> belong to the host and are parameters of every
  function that calls them: \<open>parse text\<close> is \<open>None\<close> where \<open>JSON.parse\<close> throws a
  SyntaxError, and \<open>stringify indent v\<close> is \<open>JSON.stringify(v, null, indent)\<close>, with
  \<open>indent = 0\<close> for the one-argument call.
\<close>

type_synonym json_parse = "string \<Rightarrow> json option"
type_synonym json_stringify = "nat \<Rightarrow> json \<Rightarrow> string"

text \<open>\<open>Boolean(v)\<close>, \<open>!v\<close> and \<open>v || d\<close>: the falsy values are \<open>null\<close>, \<open>false\<close>, zero and the
  empty string.\<close>

fun truthy :: "json \<Rightarrow> bool" where
  "truthy JNull = False"
| "truthy (JBool b) = b"
| "truthy (JNum n) = (n \<noteq> Num 0)"
| "truthy (JStr s) = (s \<noteq> [])"
| "truthy (JArr vs) = True"
| "truthy (JObj kvs) = True"

text \<open>
  The own properties of a parsed value, for reading one of \<open>defaultPolicy\<close>,
  \<open>allowedUsers\<close>, \<open>deniedUsers\<close>, \<open>logInstallAttempts\<close>, \<open>userId\<close>, \<open>port\<close> and
  \<open>password\<close>: an object gives its own property or \<open>undefined\<close> (\<open>None\<close>); a boolean,
  number, string or array has none of these properties; reading a property of \<open>null\<close>
  throws a TypeError.
\<close>

datatype exception = TypeError

fun ownProps :: "json \<Rightarrow> exception + (string \<Rightarrow> json option)" where
  "ownProps JNull = Inl TypeError"
| "ownProps (JObj kvs) = Inr (map_of kvs)"
| "ownProps v = Inr Map.empty"

text \<open>
  \<open>if (updates.k !== undefined) config.k = updates.k\<close>, and the same choice in an object
  spread: the property when there is one, the old value otherwise. Nothing is checked.
\<close>

fun override :: "json option \<Rightarrow> json \<Rightarrow> json" where
  "override None old = old"
| "override (Some v) old = v"

text \<open>
  \<open>u === v\<close> between an entry \<open>u\<close> of a list of the configuration and the value \<open>v\<close> that
  the request at hand has parsed, also as \<open>Array.prototype.includes\<close> compares: null,
  booleans, numbers and strings are equal by value; an array or an object is identical
  to itself only, and what a request has just parsed is a new one.
\<close>

fun strictEquals :: "json \<Rightarrow> json \<Rightarrow> bool" where
  "strictEquals JNull JNull = True"
| "strictEquals (JBool a) (JBool b) = (a = b)"
| "strictEquals (JNum a) (JNum b) = (a = b)"
| "strictEquals (JStr a) (JStr b) = (a = b)"
| "strictEquals u v = False"

text \<open>
  \<open>ToString\<close>, which \<open>String.prototype.includes\<close> applies to its argument. A finite number
  gives the text that \<open>JSON.stringify\<close> gives for it. An array gives its elements joined
  by commas, \<open>null\<close> counting as the empty string. An object gives \<open>[object Object]\<close>,
  unless it has an own property \<open>toString\<close>: that is no function, \<open>valueOf\<close> gives no
  primitive either, and the conversion throws a TypeError.
\<close>

fun toStringJS :: "json_stringify \<Rightarrow> json \<Rightarrow> exception + string"
  and joinJS :: "json_stringify \<Rightarrow> json list \<Rightarrow> exception + string" where
  "toStringJS stringify JNull = Inr ''null''"
| "toStringJS stringify (JBool b) = Inr (if b then ''true'' else ''false'')"
| "toStringJS stringify (JNum (Num q)) = Inr (stringify 0 (JNum (Num q)))"
| "toStringJS stringify (JNum PosInfinity) = Inr ''Infinity''"
| "toStringJS stringify (JNum NegInfinity) = Inr ''-Infinity''"
| "toStringJS stringify (JStr s) = Inr s"
| "toStringJS stringify (JArr vs) = joinJS stringify vs"
| "toStringJS stringify (JObj kvs) =
     (if ''toString'' \<in> set (map fst kvs) then Inl TypeError else Inr ''[object Object]'')"
| "joinJS stringify [] = Inr []"
| "joinJS stringify (v # vs) =
     (case (if v = JNull then Inr [] else toStringJS stringify v) of
        Inl e \<Rightarrow> Inl e
      | Inr s \<Rightarrow>
         if vs = [] then Inr s
         else (case joinJS stringify vs of
                 Inl e \<Rightarrow> Inl e
               | Inr rest \<Rightarrow> Inr (s @ '','' @ rest)))"

section \<open>The configuration at run time\<close>

text \<open>
  Nothing checks what \<open>loadConfig\<close> reads from the file or what \<open>PUT /api/config\<close> and the
  \<open>/api/users\<close> routes take from a request body, so at run time each field of the
  configuration holds whatever JSON value was stored last.
\<close>

record RawConfig =
  rawPort :: json
  rawPassword :: json
  rawDefaultPolicy :: json
  rawAllowedUsers :: json
  rawDeniedUsers :: json
  rawLogInstallAttempts :: json

text \<open>A configuration of the declared types, as the object it is at run time.\<close>

definition rawConfig :: "PluginConfig \<Rightarrow> RawConfig" where
  "rawConfig c =
     \<lparr>rawPort = JNum (port c),
      rawPassword = JStr (password c),
      rawDefaultPolicy = JStr (defaultPolicy c),
      rawAllowedUsers = JArr (map JStr (allowedUsers c)),
      rawDeniedUsers = JArr (map JStr (deniedUsers c)),
      rawLogInstallAttempts = JBool (logInstallAttempts c)\<rparr>"

text \<open>The other way round: the typed configuration, when every field has its declared
  type.\<close>

fun asString :: "json \<Rightarrow> string option" where
  "asString (JStr s) = Some s"
| "asString v = None"

fun asBoolean :: "json \<Rightarrow> bool option" where
  "asBoolean (JBool b) = Some b"
| "asBoolean v = None"

fun asNumber :: "json \<Rightarrow> number option" where
  "asNumber (JNum n) = Some n"
| "asNumber v = None"

fun asStrings :: "json list \<Rightarrow> string list option" where
  "asStrings [] = Some []"
| "asStrings (JStr s # vs) =
     (case asStrings vs of None \<Rightarrow> None | Some ss \<Rightarrow> Some (s # ss))"
| "asStrings (v # vs) = None"

fun asStringArray :: "json \<Rightarrow> string list option" where
  "asStringArray (JArr vs) = asStrings vs"
| "asStringArray v = None"

definition typedConfig :: "RawConfig \<Rightarrow> PluginConfig option" where
  "typedConfig rc =
     (case (asNumber (rawPort rc), asString (rawPassword rc), asString (rawDefaultPolicy rc),
            asStringArray (rawAllowedUsers rc), asStringArray (rawDeniedUsers rc),
            asBoolean (rawLogInstallAttempts rc)) of
        (Some pt, Some pw, Some dp, Some al, Some dl, Some lg) \<Rightarrow>
          Some \<lparr>port = pt, password = pw, defaultPolicy = dp, allowedUsers = al,
                deniedUsers = dl, logInstallAttempts = lg\<rparr>
      | _ \<Rightarrow> None)"

subsection \<open>canInstallSkill on the configuration at run time\<close>

text \<open>
  \<open>u => normalizedId.includes(u) || u.includes(normalizedId)\<close> for an entry \<open>u\<close> of any
  kind. \<open>normalizedId.includes(u)\<close> converts \<open>u\<close> to a string first. \<open>u.includes\<close> is the
  substring search of a string and the membership test of an array; \<open>null\<close>, a boolean, a
  number or an object has no such method, and the call throws.
\<close>

definition matchesValue :: "json_stringify \<Rightarrow> string \<Rightarrow> json \<Rightarrow> exception + bool" where
  "matchesValue stringify normalizedId u =
     (case toStringJS stringify u of
        Inl e \<Rightarrow> Inl e
      | Inr s \<Rightarrow>
         if str_includes normalizedId s then Inr True
         else (case u of
                 JStr t \<Rightarrow> Inr (str_includes t normalizedId)
               | JArr vs \<Rightarrow> Inr (list_ex (\<lambda>v. strictEquals v (JStr normalizedId)) vs)
               | _ \<Rightarrow> Inl TypeError))"

text \<open>\<open>list.some(f)\<close>: the entries in order up to the first that matches; an exception of
  \<open>f\<close> ends the search. Only an array has the method.\<close>

fun someValue :: "json_stringify \<Rightarrow> string \<Rightarrow> json list \<Rightarrow> exception + bool" where
  "someValue stringify normalizedId [] = Inr False"
| "someValue stringify normalizedId (u # us) =
     (case matchesValue stringify normalizedId u of
        Inl e \<Rightarrow> Inl e
      | Inr True \<Rightarrow> Inr True
      | Inr False \<Rightarrow> someValue stringify normalizedId us)"

fun someMatch :: "json_stringify \<Rightarrow> string \<Rightarrow> json \<Rightarrow> exception + bool" where
  "someMatch stringify normalizedId (JArr us) = someValue stringify normalizedId us"
| "someMatch stringify normalizedId v = Inl TypeError"

definition canInstallSkillRaw ::
  "json_stringify \<Rightarrow> RawConfig \<Rightarrow> string \<Rightarrow> exception + Decision" where
  "canInstallSkillRaw stringify config userId =
     (let normalizedId = normalizeUserId userId in
      case someMatch stringify normalizedId (rawDeniedUsers config) of
        Inl e \<Rightarrow> Inl e
      | Inr True \<Rightarrow> Inr \<lparr>allowed = False, reason = ''Benutzer ist auf der Sperrliste''\<rparr>
      | Inr False \<Rightarrow>
         (case someMatch stringify normalizedId (rawAllowedUsers config) of
            Inl e \<Rightarrow> Inl e
          | Inr True \<Rightarrow> Inr \<lparr>allowed = True, reason = ''Benutzer ist auf der Whitelist''\<rparr>
          | Inr False \<Rightarrow>
             if rawDefaultPolicy config = JStr ''allow''
             then Inr \<lparr>allowed = True, reason = ''Standard-Richtlinie: Erlaubt''\<rparr>
             else Inr \<lparr>allowed = False,
                       reason = ''Standard-Richtlinie: Verweigert (nur Whitelist-Benutzer)''\<rparr>))"

section \<open>The state and the file system\<close>

text \<open>
  The configuration in memory and the files the plugin reads and writes: \<open>CONFIG_FILE\<close>,
  \<open>LOG_FILE\<close> (\<open>None\<close> when the file does not exist) and the directory \<open>LOG_DIR\<close>. Reads
  and writes of the file system are taken to succeed. The configuration is a parameter of
  the type: \<open>RawConfig\<close> at run time, \<open>PluginConfig\<close> where every field has its declared
  type.
\<close>

record 'c ServerState =
  config :: 'c
  configFile :: "string option"
  logDir :: bool
  logFile :: "string option"

definition rawState :: "PluginConfig ServerState \<Rightarrow> RawConfig ServerState" where
  "rawState st =
     \<lparr>config = rawConfig (config st), configFile = configFile st, logDir = logDir st,
      logFile = logFile st\<rparr>"

definition typedState :: "RawConfig ServerState \<Rightarrow> PluginConfig ServerState option" where
  "typedState rs =
     (case typedConfig (config rs) of
        None \<Rightarrow> None
      | Some c \<Rightarrow> Some \<lparr>config = c, configFile = configFile rs, logDir = logDir rs,
                         logFile = logFile rs\<rparr>)"

subsection \<open>loadConfig and saveConfig\<close>

definition defaultConfig :: PluginConfig where
  "defaultConfig =
     \<lparr>port = Num 18803, password = [], defaultPolicy = ''deny'', allowedUsers = [],
      deniedUsers = [], logInstallAttempts = True\<rparr>"

text \<open>
  \<open>{ ...defaultConfig, ...saved }\<close>: each own property of the parsed value replaces the
  default of the same name, whatever it is. Spreading \<open>null\<close>, a boolean or a number adds
  nothing, and a string or an array adds index keys only, so none of the six fields.
\<close>

definition spreadOver :: "RawConfig \<Rightarrow> json \<Rightarrow> RawConfig" where
  "spreadOver base saved =
     (let own = (case ownProps saved of Inl TypeError \<Rightarrow> Map.empty | Inr props \<Rightarrow> props) in
      \<lparr>rawPort = override (own ''port'') (rawPort base),
       rawPassword = override (own ''password'') (rawPassword base),
       rawDefaultPolicy = override (own ''defaultPolicy'') (rawDefaultPolicy base),
       rawAllowedUsers = override (own ''allowedUsers'') (rawAllowedUsers base),
       rawDeniedUsers = override (own ''deniedUsers'') (rawDeniedUsers base),
       rawLogInstallAttempts =
         override (own ''logInstallAttempts'') (rawLogInstallAttempts base)\<rparr>)"

definition loadConfigRaw :: "json_parse \<Rightarrow> string option \<Rightarrow> RawConfig" where
  "loadConfigRaw parse file =
     (case file of
        None \<Rightarrow> rawConfig defaultConfig
      | Some text \<Rightarrow>
         (case parse text of
            None \<Rightarrow> rawConfig defaultConfig
          | Some saved \<Rightarrow> spreadOver (rawConfig defaultConfig) saved))"

text \<open>
  \<open>loadConfig\<close> with its declared result type: \<open>Inr\<close> the typed configuration when every
  field of the object read has its declared type, \<open>Inl\<close> the object as it is otherwise.
\<close>

definition loadConfig :: "json_parse \<Rightarrow> string option \<Rightarrow> RawConfig + PluginConfig" where
  "loadConfig parse file =
     (case typedConfig (loadConfigRaw parse file) of
        None \<Rightarrow> Inl (loadConfigRaw parse file)
      | Some c \<Rightarrow> Inr c)"

definition toSaveRaw :: "RawConfig \<Rightarrow> json" where
  "toSaveRaw c =
     JObj [(''allowedUsers'', rawAllowedUsers c),
           (''deniedUsers'', rawDeniedUsers c),
           (''defaultPolicy'', rawDefaultPolicy c),
           (''logInstallAttempts'', rawLogInstallAttempts c)]"

definition saveConfigRaw :: "json_stringify \<Rightarrow> RawConfig ServerState \<Rightarrow> RawConfig ServerState" where
  "saveConfigRaw stringify st = st\<lparr>configFile := Some (stringify 2 (toSaveRaw (config st)))\<rparr>"

text \<open>The same on a configuration of the declared types.\<close>

definition toSave :: "PluginConfig \<Rightarrow> json" where
  "toSave c =
     JObj [(''allowedUsers'', JArr (map JStr (allowedUsers c))),
           (''deniedUsers'', JArr (map JStr (deniedUsers c))),
           (''defaultPolicy'', JStr (defaultPolicy c)),
           (''logInstallAttempts'', JBool (logInstallAttempts c))]"

definition saveConfig ::
  "json_stringify \<Rightarrow> PluginConfig ServerState \<Rightarrow> PluginConfig ServerState" where
  "saveConfig stringify st = st\<lparr>configFile := Some (stringify 2 (toSave (config st)))\<rparr>"

subsection \<open>logInstallAttempt\<close>

record InstallLog =
  timestamp :: string
  entryUserId :: string
  entrySkillName :: string
  entryAllowed :: bool
  entryReason :: string

definition installLogJson :: "InstallLog \<Rightarrow> json" where
  "installLogJson entry =
     JObj [(''timestamp'', JStr (timestamp entry)),
           (''userId'', JStr (entryUserId entry)),
           (''skillName'', JStr (entrySkillName entry)),
           (''allowed'', JBool (entryAllowed entry)),
           (''reason'', JStr (entryReason entry))]"

definition appendFile :: "string option \<Rightarrow> string \<Rightarrow> string option" where
  "appendFile file text = Some ((case file of None \<Rightarrow> [] | Some old \<Rightarrow> old) @ text)"

definition logInstallAttempt ::
  "json_stringify \<Rightarrow> InstallLog \<Rightarrow> RawConfig ServerState \<Rightarrow> RawConfig ServerState" where
  "logInstallAttempt stringify entry st =
     (if \<not> truthy (rawLogInstallAttempts (config st)) then st
      else st\<lparr>logDir := True,
              logFile := appendFile (logFile st)
                           (stringify 0 (installLogJson entry) @ [CHR 0x0A])\<rparr>)"

section \<open>The HTTP surface\<close>

text \<open>
  A request as \<open>handleRequest\<close> reads it: the method, the path and the query parameters
  of the parsed URL (\<open>searchParams.get\<close> gives \<open>null\<close>, here \<open>None\<close>, for a parameter that
  is absent), and the body that \<open>parseBody\<close> resolves to.
\<close>

record Request =
  reqMethod :: string
  pathname :: string
  authParam :: "string option"
  userIdParam :: "string option"
  skillParam :: "string option"
  reqBody :: string

record Response =
  status :: nat
  headers :: "(string \<times> string) list"
  body :: "json option"

definition sendJson :: "json \<Rightarrow> nat \<Rightarrow> Response" where
  "sendJson data code =
     \<lparr>status = code,
      headers = [(''Content-Type'', ''application/json''),
                 (''Access-Control-Allow-Origin'', ''*'')],
      body = Some data\<rparr>"

definition preflight :: Response where
  "preflight =
     \<lparr>status = 204,
      headers = [(''Access-Control-Allow-Origin'', ''*''),
                 (''Access-Control-Allow-Methods'', ''GET, POST, PUT, DELETE, OPTIONS''),
                 (''Access-Control-Allow-Headers'', ''Content-Type'')],
      body = None\<rparr>"

definition unauthorized :: Response where
  "unauthorized = sendJson (JObj [(''error'', JStr ''Unauthorized'')]) 401"

definition invalidJson :: Response where
  "invalidJson = sendJson (JObj [(''error'', JStr ''Invalid JSON'')]) 400"

definition userIdRequired :: Response where
  "userIdRequired = sendJson (JObj [(''error'', JStr ''userId required'')]) 400"

definition configJson :: "RawConfig \<Rightarrow> json" where
  "configJson c =
     JObj [(''defaultPolicy'', rawDefaultPolicy c),
           (''allowedUsers'', rawAllowedUsers c),
           (''deniedUsers'', rawDeniedUsers c),
           (''logInstallAttempts'', rawLogInstallAttempts c)]"

text \<open>\<open>auth === config.password\<close>, with \<open>auth\<close> a string or \<open>null\<close>.\<close>

definition isAdmin :: "string option \<Rightarrow> json \<Rightarrow> bool" where
  "isAdmin auth pw = (case auth of None \<Rightarrow> pw = JNull | Some a \<Rightarrow> pw = JStr a)"

subsection \<open>GET /api/check\<close>

text \<open>An exception of \<open>canInstallSkill\<close> is not caught here and leaves the handler.\<close>

definition checkPermission ::
  "json_stringify \<Rightarrow> string \<Rightarrow> RawConfig ServerState \<Rightarrow> Request
     \<Rightarrow> exception + RawConfig ServerState \<times> Response" where
  "checkPermission stringify now st req =
     (let skillName = (case skillParam req of
                         None \<Rightarrow> ''unknown''
                       | Some s \<Rightarrow> if s = [] then ''unknown'' else s) in
      case userIdParam req of
        None \<Rightarrow> Inr (st, sendJson (JObj [(''error'', JStr ''userId parameter required'')]) 400)
      | Some userId \<Rightarrow>
          if userId = []
          then Inr (st, sendJson (JObj [(''error'', JStr ''userId parameter required'')]) 400)
          else
            (case canInstallSkillRaw stringify (config st) userId of
               Inl e \<Rightarrow> Inl e
             | Inr result \<Rightarrow>
                 (let st' = logInstallAttempt stringify
                        \<lparr>timestamp = now, entryUserId = userId, entrySkillName = skillName,
                         entryAllowed = allowed result, entryReason = reason result\<rparr> st
                  in Inr (st', sendJson
                      (JObj [(''userId'', JStr userId),
                             (''skill'', JStr skillName),
                             (''allowed'', JBool (allowed result)),
                             (''reason'', JStr (reason result)),
                             (''message'', JStr
                                (if allowed result
                                 then ''Installation von '' @ [CHR 0x22] @ skillName
                                        @ [CHR 0x22] @ '' erlaubt.''
                                 else ''Installation von '' @ [CHR 0x22] @ skillName
                                        @ [CHR 0x22] @ '' verweigert: '' @ reason result))])
                      200))))"

subsection \<open>PUT /api/config\<close>

text \<open>
  The first property read of \<open>null\<close> throws before anything is assigned, and the \<open>catch\<close>
  answers 400; every other parsed value goes through the four assignments.
\<close>

definition updateConfig ::
  "json_parse \<Rightarrow> json_stringify \<Rightarrow> RawConfig ServerState \<Rightarrow> string
     \<Rightarrow> RawConfig ServerState \<times> Response" where
  "updateConfig parse stringify st text =
     (case parse text of
        None \<Rightarrow> (st, invalidJson)
      | Some updates \<Rightarrow>
         (case ownProps updates of
            Inl TypeError \<Rightarrow> (st, invalidJson)
          | Inr own \<Rightarrow>
             (let c = config st;
                  c' = c\<lparr>rawDefaultPolicy := override (own ''defaultPolicy'') (rawDefaultPolicy c),
                         rawAllowedUsers := override (own ''allowedUsers'') (rawAllowedUsers c),
                         rawDeniedUsers := override (own ''deniedUsers'') (rawDeniedUsers c),
                         rawLogInstallAttempts :=
                           override (own ''logInstallAttempts'') (rawLogInstallAttempts c)\<rparr>;
                  st' = saveConfigRaw stringify (st\<lparr>config := c'\<rparr>)
              in (st', sendJson (JObj [(''success'', JBool True),
                                       (''config'', configJson c')]) 200))))"

subsection \<open>POST /api/users/allow, /api/users/deny, /api/users/remove\<close>

text \<open>
  \<open>const { userId } = JSON.parse(body); if (!userId) ...\<close>: the three handlers read the
  body the same way. The result is the response to send at once, or the user id, which is
  any truthy value.
\<close>

definition readUserId :: "json_parse \<Rightarrow> string \<Rightarrow> Response + json" where
  "readUserId parse text =
     (case parse text of
        None \<Rightarrow> Inl invalidJson
      | Some v \<Rightarrow>
         (case ownProps v of
            Inl TypeError \<Rightarrow> Inl invalidJson
          | Inr own \<Rightarrow>
             (case own ''userId'' of
                None \<Rightarrow> Inl userIdRequired
              | Some userId \<Rightarrow> if \<not> truthy userId then Inl userIdRequired else Inr userId)))"

text \<open>\<open>list.filter(u => u !== userId)\<close>; only an array has the method.\<close>

fun filterOut :: "json \<Rightarrow> json \<Rightarrow> exception + json" where
  "filterOut (JArr us) userId = Inr (JArr (filter (\<lambda>u. \<not> strictEquals u userId) us))"
| "filterOut v userId = Inl TypeError"

text \<open>
  \<open>if (!list.includes(userId)) { list.push(userId); }\<close>. On an array \<open>includes\<close> is the
  membership test. On a string it is the substring search for \<open>userId\<close> converted to a
  string, and \<open>push\<close>, which a string does not have, throws when the search fails. Any
  other value has no \<open>includes\<close>.
\<close>

fun pushIfAbsent :: "json_stringify \<Rightarrow> json \<Rightarrow> json \<Rightarrow> exception + json" where
  "pushIfAbsent stringify (JArr us) userId =
     Inr (JArr (if list_ex (\<lambda>u. strictEquals u userId) us then us else us @ [userId]))"
| "pushIfAbsent stringify (JStr s) userId =
     (case toStringJS stringify userId of
        Inl e \<Rightarrow> Inl e
      | Inr t \<Rightarrow> if str_includes s t then Inr (JStr s) else Inl TypeError)"
| "pushIfAbsent stringify v userId = Inl TypeError"

text \<open>
  In each handler an exception is caught and answered 400 \<open>Invalid JSON\<close>; what was
  assigned before it stays assigned, and the file is not written.
\<close>

definition addUser ::
  "json_parse \<Rightarrow> json_stringify \<Rightarrow> RawConfig ServerState \<Rightarrow> string
     \<Rightarrow> RawConfig ServerState \<times> Response" where
  "addUser parse stringify st text =
     (case readUserId parse text of
        Inl response \<Rightarrow> (st, response)
      | Inr userId \<Rightarrow>
         (case filterOut (rawDeniedUsers (config st)) userId of
            Inl e \<Rightarrow> (st, invalidJson)
          | Inr denied' \<Rightarrow>
             (let st1 = st\<lparr>config := (config st)\<lparr>rawDeniedUsers := denied'\<rparr>\<rparr> in
              case pushIfAbsent stringify (rawAllowedUsers (config st1)) userId of
                Inl e \<Rightarrow> (st1, invalidJson)
              | Inr allowed' \<Rightarrow>
                 (saveConfigRaw stringify
                    (st1\<lparr>config := (config st1)\<lparr>rawAllowedUsers := allowed'\<rparr>\<rparr>),
                  sendJson (JObj [(''success'', JBool True),
                                  (''allowedUsers'', allowed')]) 200))))"

definition denyUser ::
  "json_parse \<Rightarrow> json_stringify \<Rightarrow> RawConfig ServerState \<Rightarrow> string
     \<Rightarrow> RawConfig ServerState \<times> Response" where
  "denyUser parse stringify st text =
     (case readUserId parse text of
        Inl response \<Rightarrow> (st, response)
      | Inr userId \<Rightarrow>
         (case filterOut (rawAllowedUsers (config st)) userId of
            Inl e \<Rightarrow> (st, invalidJson)
          | Inr allowed' \<Rightarrow>
             (let st1 = st\<lparr>config := (config st)\<lparr>rawAllowedUsers := allowed'\<rparr>\<rparr> in
              case pushIfAbsent stringify (rawDeniedUsers (config st1)) userId of
                Inl e \<Rightarrow> (st1, invalidJson)
              | Inr denied' \<Rightarrow>
                 (saveConfigRaw stringify
                    (st1\<lparr>config := (config st1)\<lparr>rawDeniedUsers := denied'\<rparr>\<rparr>),
                  sendJson (JObj [(''success'', JBool True),
                                  (''deniedUsers'', denied')]) 200))))"

definition removeUser ::
  "json_parse \<Rightarrow> json_stringify \<Rightarrow> RawConfig ServerState \<Rightarrow> string
     \<Rightarrow> RawConfig ServerState \<times> Response" where
  "removeUser parse stringify st text =
     (case readUserId parse text of
        Inl response \<Rightarrow> (st, response)
      | Inr userId \<Rightarrow>
         (case filterOut (rawAllowedUsers (config st)) userId of
            Inl e \<Rightarrow> (st, invalidJson)
          | Inr allowed' \<Rightarrow>
             (let st1 = st\<lparr>config := (config st)\<lparr>rawAllowedUsers := allowed'\<rparr>\<rparr> in
              case filterOut (rawDeniedUsers (config st1)) userId of
                Inl e \<Rightarrow> (st1, invalidJson)
              | Inr denied' \<Rightarrow>
                 (saveConfigRaw stringify
                    (st1\<lparr>config := (config st1)\<lparr>rawDeniedUsers := denied'\<rparr>\<rparr>),
                  sendJson (JObj [(''success'', JBool True),
                                  (''allowedUsers'', allowed'),
                                  (''deniedUsers'', denied')]) 200))))"

subsection \<open>GET /api/logs\<close>

text \<open>
  \<open>s.trim()\<close> removes white space and line terminators from both ends; among the code
  units below 256 these are tab, line feed, vertical tab, form feed, carriage return,
  space and the no-break space.
\<close>

definition isWhiteSpace :: "char \<Rightarrow> bool" where
  "isWhiteSpace c \<longleftrightarrow>
     c \<in> set [CHR 0x09, CHR 0x0A, CHR 0x0B, CHR 0x0C, CHR 0x0D, CHR 0x20, CHR 0xA0]"

definition trim :: "string \<Rightarrow> string" where
  "trim s = rev (dropWhile isWhiteSpace (rev (dropWhile isWhiteSpace s)))"

text \<open>\<open>s.split(sep)\<close> for a separator of one character; the empty string gives \<open>['']\<close>.\<close>

fun split :: "char \<Rightarrow> string \<Rightarrow> string list" where
  "split sep [] = [[]]"
| "split sep (c # cs) =
     (if c = sep then [] # split sep cs
      else (let rest = split sep cs in (c # hd rest) # tl rest))"

text \<open>
  The pipeline of the handler:
  \<open>content.trim().split('\n').filter(line => line.trim())
     .map(line => { try { return JSON.parse(line); } catch { return null; } })
     .filter(Boolean).reverse().slice(0, 100)\<close>.
\<close>

definition parseOrNull :: "json_parse \<Rightarrow> string \<Rightarrow> json" where
  "parseOrNull parse line = (case parse line of None \<Rightarrow> JNull | Some v \<Rightarrow> v)"

definition readLogs :: "json_parse \<Rightarrow> string \<Rightarrow> json list" where
  "readLogs parse content =
     take 100 (rev (filter truthy (map (parseOrNull parse)
       (filter (\<lambda>line. trim line \<noteq> []) (split (CHR 0x0A) (trim content))))))"

definition getLogs :: "json_parse \<Rightarrow> 'c ServerState \<Rightarrow> Response" where
  "getLogs parse st =
     (case logFile st of
        None \<Rightarrow> sendJson (JObj [(''logs'', JArr [])]) 200
      | Some content \<Rightarrow> sendJson (JObj [(''logs'', JArr (readLogs parse content))]) 200)"

subsection \<open>handleRequest\<close>

text \<open>
  The router; \<open>methodOf\<close> is \<open>req.method || 'GET'\<close>. The handlers of the mutating routes run
  once the body has arrived; here they run at once, on the state the request finds. \<open>now\<close>
  is what \<open>new Date().toISOString()\<close> returns while the request is served. \<open>Inl\<close> is an
  exception that leaves the handler.
\<close>

definition methodOf :: "Request \<Rightarrow> string" where
  "methodOf req = (if reqMethod req = [] then ''GET'' else reqMethod req)"

definition handleRequestRaw ::
  "json_parse \<Rightarrow> json_stringify \<Rightarrow> string \<Rightarrow> RawConfig ServerState \<Rightarrow> Request
     \<Rightarrow> exception + RawConfig ServerState \<times> Response" where
  "handleRequestRaw parse stringify now st req =
     (let path = pathname req;
          method = methodOf req;
          auth = authParam req in
      if method = ''OPTIONS'' then Inr (st, preflight)
      else
        let admin = isAdmin auth (rawPassword (config st)) in
        if path = ''/api/check'' \<and> method = ''GET''
        then checkPermission stringify now st req
        else if path = ''/api/config'' \<and> method = ''GET''
        then (if \<not> admin then Inr (st, unauthorized)
              else Inr (st, sendJson (configJson (config st)) 200))
        else if path = ''/api/config'' \<and> method = ''PUT''
        then (if \<not> admin then Inr (st, unauthorized)
              else Inr (updateConfig parse stringify st (reqBody req)))
        else if path = ''/api/users/allow'' \<and> method = ''POST''
        then (if \<not> admin then Inr (st, unauthorized)
              else Inr (addUser parse stringify st (reqBody req)))
        else if path = ''/api/users/deny'' \<and> method = ''POST''
        then (if \<not> admin then Inr (st, unauthorized)
              else Inr (denyUser parse stringify st (reqBody req)))
        else if path = ''/api/users/remove'' \<and> method = ''POST''
        then (if \<not> admin then Inr (st, unauthorized)
              else Inr (removeUser parse stringify st (reqBody req)))
        else if path = ''/api/logs'' \<and> method = ''GET''
        then (if \<not> admin then Inr (st, unauthorized)
              else Inr (st, getLogs parse st))
        else Inr (st, sendJson (JObj [(''error'', JStr ''Not found'')]) 404))"

text \<open>
  The same on a state of the declared types: \<open>Inr\<close> the new state and the response when
  the new state has the declared types again; otherwise \<open>Inl\<close>, with the state as the
  handler left it and the response it sent, or with the exception that left it.
\<close>

datatype outside = Thrown exception | Untyped "RawConfig ServerState" Response

definition handleRequest ::
  "json_parse \<Rightarrow> json_stringify \<Rightarrow> string \<Rightarrow> PluginConfig ServerState \<Rightarrow> Request
     \<Rightarrow> outside + PluginConfig ServerState \<times> Response" where
  "handleRequest parse stringify now st req =
     (case handleRequestRaw parse stringify now (rawState st) req of
        Inl e \<Rightarrow> Inl (Thrown e)
      | Inr (rs, response) \<Rightarrow>
         (case typedState rs of
            None \<Rightarrow> Inl (Untyped rs response)
          | Some st' \<Rightarrow> Inr (st', response)))"

section \<open>Sample inputs\<close>

text \<open>
  Texts and values for running the handlers on concrete requests. \<open>sampleParse\<close> is
  \<open>JSON.parse\<close> on the JSON texts listed, and on texts that are not JSON (where it
  throws); \<open>sampleStringify\<close> is \<open>JSON.stringify\<close> at the one value whose text a run
  reads back.
\<close>

definition dq :: string where
  "dq = [CHR 0x22]"

definition userIdBody :: "string \<Rightarrow> string" where
  "userIdBody u = ''{'' @ dq @ ''userId'' @ dq @ '':'' @ dq @ u @ dq @ ''}''"

definition userIdFiveBody :: string where
  "userIdFiveBody = ''{'' @ dq @ ''userId'' @ dq @ '':5}''"

definition allowedUsersBody :: "string \<Rightarrow> string" where
  "allowedUsersBody u =
     ''{'' @ dq @ ''allowedUsers'' @ dq @ '':['' @ dq @ u @ dq @ '']}''"

definition defaultPolicyBody :: "string \<Rightarrow> string" where
  "defaultPolicyBody p =
     ''{'' @ dq @ ''defaultPolicy'' @ dq @ '':'' @ dq @ p @ dq @ ''}''"

definition defaultPolicyNullBody :: string where
  "defaultPolicyNullBody = ''{'' @ dq @ ''defaultPolicy'' @ dq @ '':null}''"

definition truncatedLine :: string where
  "truncatedLine = ''{'' @ dq @ ''userId'' @ dq @ '':'' @ dq @ ''bo''"

definition savedConfig :: PluginConfig where
  "savedConfig =
     \<lparr>port = Num 8080, password = ''secret'', defaultPolicy = ''allow'',
      allowedUsers = [''alice''], deniedUsers = [], logInstallAttempts = False\<rparr>"

definition savedText :: string where
  "savedText =
     ''{'' @ [CHR 0x0A]
     @ ''  '' @ dq @ ''allowedUsers'' @ dq @ '': ['' @ [CHR 0x0A]
     @ ''    '' @ dq @ ''alice'' @ dq @ [CHR 0x0A]
     @ ''  ],'' @ [CHR 0x0A]
     @ ''  '' @ dq @ ''deniedUsers'' @ dq @ '': [],'' @ [CHR 0x0A]
     @ ''  '' @ dq @ ''defaultPolicy'' @ dq @ '': '' @ dq @ ''allow'' @ dq @ '','' @ [CHR 0x0A]
     @ ''  '' @ dq @ ''logInstallAttempts'' @ dq @ '': false'' @ [CHR 0x0A]
     @ ''}''"

definition sampleParse :: json_parse where
  "sampleParse text =
     (if text = userIdBody ''eve'' then Some (JObj [(''userId'', JStr ''eve'')])
      else if text = userIdBody ''bob'' then Some (JObj [(''userId'', JStr ''bob'')])
      else if text = userIdFiveBody then Some (JObj [(''userId'', JNum (Num 5))])
      else if text = allowedUsersBody ''mallory''
      then Some (JObj [(''allowedUsers'', JArr [JStr ''mallory''])])
      else if text = defaultPolicyBody ''maybe''
      then Some (JObj [(''defaultPolicy'', JStr ''maybe'')])
      else if text = defaultPolicyNullBody
      then Some (JObj [(''defaultPolicy'', JNull)])
      else if text = savedText
      then Some (JObj [(''allowedUsers'', JArr [JStr ''alice'']),
                       (''deniedUsers'', JArr []),
                       (''defaultPolicy'', JStr ''allow''),
                       (''logInstallAttempts'', JBool False)])
      else None)"

definition sampleStringify :: json_stringify where
  "sampleStringify indent v =
     (if indent = 2 \<and> v = toSave savedConfig then savedText else [])"

definition sampleState :: "PluginConfig ServerState" where
  "sampleState =
     \<lparr>config = \<lparr>port = Num 18803, password = ''secret'', defaultPolicy = ''deny'',
                allowedUsers = [''eve''], deniedUsers = [''mallory''],
                logInstallAttempts = True\<rparr>,
      configFile = None, logDir = False, logFile = None\<rparr>"

section \<open>Auxiliary facts\<close>

subsection \<open>Substring search\<close>

lemma includes_iff: "str_includes s t \<longleftrightarrow> (\<exists>p q. s = p @ t @ q)"
proof (induction s)
  case Nil
  then show ?case by simp
next
  case (Cons c s)
  have "(\<exists>p q. c # s = p @ t @ q) \<longleftrightarrow> (\<exists>q. c # s = t @ q) \<or> (\<exists>p q. s = p @ t @ q)"
  proof
    assume "\<exists>p q. c # s = p @ t @ q"
    then obtain p q where pq: "c # s = p @ t @ q" by blast
    show "(\<exists>q. c # s = t @ q) \<or> (\<exists>p q. s = p @ t @ q)"
    proof (cases p)
      case Nil
      with pq show ?thesis by auto
    next
      case (Cons a p')
      with pq have "s = p' @ t @ q" by simp
      then show ?thesis by blast
    qed
  next
    assume "(\<exists>q. c # s = t @ q) \<or> (\<exists>p q. s = p @ t @ q)"
    then show "\<exists>p q. c # s = p @ t @ q"
    proof
      assume "\<exists>q. c # s = t @ q"
      then obtain q where "c # s = [] @ t @ q" by auto
      then show ?thesis by blast
    next
      assume "\<exists>p q. s = p @ t @ q"
      then obtain p q where "c # s = (c # p) @ t @ q" by auto
      then show ?thesis by blast
    qed
  qed
  with Cons show ?case by (simp add: prefix_def)
qed

lemma includes_empty: "str_includes s []"
  by (cases s) simp_all

subsection \<open>The typed functions are the run-time functions on typed configurations\<close>

lemma asStrings_strings: "asStrings (map JStr us) = Some us"
  by (induction us) simp_all

lemma typedConfig_rawConfig: "typedConfig (rawConfig c) = Some c"
  by (simp add: typedConfig_def rawConfig_def asStrings_strings)

lemma typedState_rawState: "typedState (rawState st) = Some st"
  by (simp add: typedState_def rawState_def typedConfig_rawConfig)

lemma matchesValue_string:
  "matchesValue stringify n (JStr u) = Inr (matchesEntry n u)"
  by (simp add: matchesValue_def matchesEntry_def)

lemma someValue_strings:
  "someValue stringify n (map JStr us) = Inr (list_ex (matchesEntry n) us)"
  by (induction us) (simp_all add: matchesValue_string split: bool.splits)

lemma canInstallSkillRaw_typed:
  "canInstallSkillRaw stringify (rawConfig c) userId = Inr (canInstallSkill c userId)"
  by (simp add: canInstallSkillRaw_def canInstallSkill_def rawConfig_def someValue_strings
      Let_def)

lemma toSaveRaw_typed: "toSaveRaw (rawConfig c) = toSave c"
  by (simp add: toSaveRaw_def toSave_def rawConfig_def)

lemma isAdmin_typed: "isAdmin auth (JStr pw) \<longleftrightarrow> auth = Some pw"
  by (cases auth) (auto simp add: isAdmin_def)

lemma spreadOver_saved:
  "spreadOver (rawConfig defaultConfig) (toSave c)
     = rawConfig (c\<lparr>port := Num 18803, password := []\<rparr>)"
  by (simp add: spreadOver_def toSave_def rawConfig_def defaultConfig_def)

subsection \<open>Strict equality\<close>

lemma strictEquals_sym: "strictEquals u v = strictEquals v u"
  by (cases u; cases v) auto

subsection \<open>The handlers\<close>

lemma updateConfig_status:
  "status (snd (updateConfig parse stringify st text)) \<noteq> 401"
  by (simp add: updateConfig_def invalidJson_def sendJson_def Let_def
      split: option.splits sum.splits exception.splits)

lemma readUserId_status:
  "readUserId parse text = Inl r \<Longrightarrow> status r \<noteq> 401"
  by (auto simp add: readUserId_def invalidJson_def userIdRequired_def sendJson_def
      split: option.splits sum.splits exception.splits if_splits)

lemma addUser_status:
  "status (snd (addUser parse stringify st text)) \<noteq> 401"
  by (auto simp add: addUser_def invalidJson_def sendJson_def Let_def
      dest: readUserId_status split: sum.splits)

lemma denyUser_status:
  "status (snd (denyUser parse stringify st text)) \<noteq> 401"
  by (auto simp add: denyUser_def invalidJson_def sendJson_def Let_def
      dest: readUserId_status split: sum.splits)

lemma removeUser_status:
  "status (snd (removeUser parse stringify st text)) \<noteq> 401"
  by (auto simp add: removeUser_def invalidJson_def sendJson_def Let_def
      dest: readUserId_status split: sum.splits)

lemma getLogs_status: "status (getLogs parse st) \<noteq> 401"
  by (simp add: getLogs_def sendJson_def split: option.splits)

lemma handleRequestRaw_rejected:
  assumes "(methodOf req, pathname req) \<in>
             {(''GET'', ''/api/config''), (''PUT'', ''/api/config''),
              (''POST'', ''/api/users/allow''), (''POST'', ''/api/users/deny''),
              (''POST'', ''/api/users/remove''), (''GET'', ''/api/logs'')}"
    and "\<not> isAdmin (authParam req) (rawPassword (config st))"
  shows "handleRequestRaw parse stringify now st req = Inr (st, unauthorized)"
  using assms by (auto simp add: handleRequestRaw_def Let_def)

lemma handleRequestRaw_granted:
  assumes "(methodOf req, pathname req) \<in>
             {(''GET'', ''/api/config''), (''PUT'', ''/api/config''),
              (''POST'', ''/api/users/allow''), (''POST'', ''/api/users/deny''),
              (''POST'', ''/api/users/remove''), (''GET'', ''/api/logs'')}"
    and "isAdmin (authParam req) (rawPassword (config st))"
  shows "\<exists>st' r. handleRequestRaw parse stringify now st req = Inr (st', r) \<and> status r \<noteq> 401"
proof -
  have pairs: "\<exists>st' r. p = (st', r) \<and> status r \<noteq> 401" if "status (snd p) \<noteq> 401"
    for p :: "RawConfig ServerState \<times> Response"
    using that by (cases p) simp
  note answers = pairs [OF updateConfig_status] pairs [OF addUser_status]
    pairs [OF denyUser_status] pairs [OF removeUser_status]
  show ?thesis
    using assms
    by (auto simp add: handleRequestRaw_def Let_def sendJson_def getLogs_status answers)
qed

lemma addUser_disjoint:
  assumes "rawAllowedUsers (config st) = JArr as" and "rawDeniedUsers (config st) = JArr ds"
    and "\<forall>a \<in> set as. \<forall>d \<in> set ds. \<not> strictEquals a d"
  shows "\<exists>as' ds'. rawAllowedUsers (config (fst (addUser parse stringify st input))) = JArr as'
           \<and> rawDeniedUsers (config (fst (addUser parse stringify st input))) = JArr ds'
           \<and> (\<forall>a \<in> set as'. \<forall>d \<in> set ds'. \<not> strictEquals a d)"
proof (cases "readUserId parse input")
  case (Inl response)
  with assms show ?thesis by (simp add: addUser_def)
next
  case (Inr userId)
  let ?ds = "filter (\<lambda>u. \<not> strictEquals u userId) ds"
  let ?as = "if list_ex (\<lambda>u. strictEquals u userId) as then as else as @ [userId]"
  from Inr assms(1,2)
  have "rawAllowedUsers (config (fst (addUser parse stringify st input))) = JArr ?as"
    and "rawDeniedUsers (config (fst (addUser parse stringify st input))) = JArr ?ds"
    by (simp_all add: addUser_def Let_def saveConfigRaw_def)
  moreover have "\<forall>a \<in> set ?as. \<forall>d \<in> set ?ds. \<not> strictEquals a d"
    using assms(3) by (auto simp add: strictEquals_sym [of userId])
  ultimately show ?thesis by blast
qed

lemma denyUser_disjoint:
  assumes "rawAllowedUsers (config st) = JArr as" and "rawDeniedUsers (config st) = JArr ds"
    and "\<forall>a \<in> set as. \<forall>d \<in> set ds. \<not> strictEquals a d"
  shows "\<exists>as' ds'. rawAllowedUsers (config (fst (denyUser parse stringify st input))) = JArr as'
           \<and> rawDeniedUsers (config (fst (denyUser parse stringify st input))) = JArr ds'
           \<and> (\<forall>a \<in> set as'. \<forall>d \<in> set ds'. \<not> strictEquals a d)"
proof (cases "readUserId parse input")
  case (Inl response)
  with assms show ?thesis by (simp add: denyUser_def)
next
  case (Inr userId)
  let ?as = "filter (\<lambda>u. \<not> strictEquals u userId) as"
  let ?ds = "if list_ex (\<lambda>u. strictEquals u userId) ds then ds else ds @ [userId]"
  from Inr assms(1,2)
  have "rawAllowedUsers (config (fst (denyUser parse stringify st input))) = JArr ?as"
    and "rawDeniedUsers (config (fst (denyUser parse stringify st input))) = JArr ?ds"
    by (simp_all add: denyUser_def Let_def saveConfigRaw_def)
  moreover have "\<forall>a \<in> set ?as. \<forall>d \<in> set ?ds. \<not> strictEquals a d"
    using assms(3) by auto
  ultimately show ?thesis by blast
qed

lemma removeUser_disjoint:
  assumes "rawAllowedUsers (config st) = JArr as" and "rawDeniedUsers (config st) = JArr ds"
    and "\<forall>a \<in> set as. \<forall>d \<in> set ds. \<not> strictEquals a d"
  shows "\<exists>as' ds'. rawAllowedUsers (config (fst (removeUser parse stringify st input))) = JArr as'
           \<and> rawDeniedUsers (config (fst (removeUser parse stringify st input))) = JArr ds'
           \<and> (\<forall>a \<in> set as'. \<forall>d \<in> set ds'. \<not> strictEquals a d)"
proof (cases "readUserId parse input")
  case (Inl response)
  with assms show ?thesis by (simp add: removeUser_def)
next
  case (Inr userId)
  let ?as = "filter (\<lambda>u. \<not> strictEquals u userId) as"
  let ?ds = "filter (\<lambda>u. \<not> strictEquals u userId) ds"
  from Inr assms(1,2)
  have "rawAllowedUsers (config (fst (removeUser parse stringify st input))) = JArr ?as"
    and "rawDeniedUsers (config (fst (removeUser parse stringify st input))) = JArr ?ds"
    by (simp_all add: removeUser_def Let_def saveConfigRaw_def)
  moreover have "\<forall>a \<in> set ?as. \<forall>d \<in> set ?ds. \<not> strictEquals a d"
    using assms(3) by auto
  ultimately show ?thesis by blast
qed

lemma updateConfig_fields:
  assumes "parse input = Some updates" and "ownProps updates = Inr own"
  shows "updateConfig parse stringify st input
     = (saveConfigRaw stringify
          (st\<lparr>config := (config st)
             \<lparr>rawDefaultPolicy :=
                override (own ''defaultPolicy'') (rawDefaultPolicy (config st)),
              rawAllowedUsers :=
                override (own ''allowedUsers'') (rawAllowedUsers (config st)),
              rawDeniedUsers :=
                override (own ''deniedUsers'') (rawDeniedUsers (config st)),
              rawLogInstallAttempts :=
                override (own ''logInstallAttempts'') (rawLogInstallAttempts (config st))\<rparr>\<rparr>),
        sendJson (JObj [(''success'', JBool True),
                        (''config'', configJson ((config st)
             \<lparr>rawDefaultPolicy :=
                override (own ''defaultPolicy'') (rawDefaultPolicy (config st)),
              rawAllowedUsers :=
                override (own ''allowedUsers'') (rawAllowedUsers (config st)),
              rawDeniedUsers :=
                override (own ''deniedUsers'') (rawDeniedUsers (config st)),
              rawLogInstallAttempts :=
                override (own ''logInstallAttempts'')
                  (rawLogInstallAttempts (config st))\<rparr>))]) 200)"
  using assms by (simp add: updateConfig_def Let_def)

lemma override_case: "override field old = (case field of None \<Rightarrow> old | Some v \<Rightarrow> v)"
  by (cases field) simp_all

lemma updateConfig_lists:
  assumes "\<forall>kvs. parse input = Some (JObj kvs) \<longrightarrow>
             map_of kvs ''allowedUsers'' = None \<and> map_of kvs ''deniedUsers'' = None"
  shows "rawAllowedUsers (config (fst (updateConfig parse stringify st input)))
           = rawAllowedUsers (config st)
       \<and> rawDeniedUsers (config (fst (updateConfig parse stringify st input)))
           = rawDeniedUsers (config st)"
proof (cases "parse input")
  case None
  then show ?thesis by (simp add: updateConfig_def)
next
  case (Some updates)
  show ?thesis
  proof (cases updates)
    case (JObj kvs)
    with Some assms
    have "map_of kvs ''allowedUsers'' = None" "map_of kvs ''deniedUsers'' = None" by auto
    with Some JObj show ?thesis
      by (simp add: updateConfig_def saveConfigRaw_def Let_def)
  qed (use Some in \<open>simp_all add: updateConfig_def saveConfigRaw_def Let_def\<close>)
qed

lemma checkPermission_config:
  "checkPermission stringify now st req = Inr (st', r) \<Longrightarrow> config st' = config st"
  by (auto simp add: checkPermission_def logInstallAttempt_def Let_def
      split: option.splits if_splits sum.splits)

lemma handleRequestRaw_cases:
  "(handleRequestRaw parse stringify now st req
      = Inr (updateConfig parse stringify st (reqBody req))
      \<and> methodOf req = ''PUT'' \<and> pathname req = ''/api/config'')
   \<or> handleRequestRaw parse stringify now st req
        = Inr (addUser parse stringify st (reqBody req))
   \<or> handleRequestRaw parse stringify now st req
        = Inr (denyUser parse stringify st (reqBody req))
   \<or> handleRequestRaw parse stringify now st req
        = Inr (removeUser parse stringify st (reqBody req))
   \<or> handleRequestRaw parse stringify now st req = checkPermission stringify now st req
   \<or> (\<exists>r. handleRequestRaw parse stringify now st req = Inr (st, r))"
  by (simp add: handleRequestRaw_def Let_def)

lemma handleRequestRaw_completes:
  assumes "(methodOf req, pathname req) \<noteq> (''GET'', ''/api/check'')"
  shows "\<exists>st' r. handleRequestRaw parse stringify now st req = Inr (st', r)"
proof -
  have pairs: "\<exists>st' r. p = (st', r)" for p :: "RawConfig ServerState \<times> Response"
    by (cases p) simp
  show ?thesis
    using assms by (auto simp add: handleRequestRaw_def Let_def pairs)
qed

subsection \<open>Lines of the log file\<close>

lemma split_line:
  "sep \<notin> set l \<Longrightarrow> split sep (l @ sep # rest) = l # split sep rest"
  by (induction l) (auto simp add: Let_def)

lemma split_single: "sep \<notin> set l \<Longrightarrow> split sep l = [l]"
  by (induction l) (auto simp add: Let_def)

lemma split_lines:
  "\<forall>l \<in> set ls. sep \<notin> set l \<Longrightarrow> sep \<notin> set lz \<Longrightarrow>
   split sep (concat (map (\<lambda>l. l @ [sep]) ls) @ lz) = ls @ [lz]"
proof (induction ls)
  case Nil
  then show ?case by (simp add: split_single)
next
  case (Cons l ls)
  then have "split sep (l @ sep # (concat (map (\<lambda>l. l @ [sep]) ls) @ lz))
               = l # (ls @ [lz])"
    by (simp add: split_line)
  then show ?case by simp
qed

lemma split_nonempty: "split sep s \<noteq> []"
  by (induction s) (simp_all add: Let_def)

lemma split_free: "\<forall>l \<in> set (split sep s). sep \<notin> set l"
proof (induction s)
  case Nil
  then show ?case by simp
next
  case (Cons c s)
  obtain l ls where r: "split sep s = l # ls"
    using split_nonempty [of sep s] by (cases "split sep s") auto
  with Cons show ?case by (auto simp add: Let_def)
qed

lemma split_joined:
  "concat (map (\<lambda>l. l @ [sep]) (butlast (split sep s))) @ last (split sep s) = s"
proof (induction s)
  case Nil
  then show ?case by simp
next
  case (Cons c s)
  obtain l ls where r: "split sep s = l # ls"
    using split_nonempty [of sep s] by (cases "split sep s") auto
  with Cons show ?case by (cases ls) (auto simp add: Let_def)
qed

lemma split_snoc:
  "split sep (s @ [c])
     = (if c = sep then split sep s @ [[]]
        else butlast (split sep s) @ [last (split sep s) @ [c]])"
proof (induction s)
  case Nil
  then show ?case by simp
next
  case (Cons d s)
  obtain l ls where r: "split sep s = l # ls"
    using split_nonempty [of sep s] by (cases "split sep s") auto
  obtain l' ls' where r': "split sep (s @ [c]) = l' # ls'"
    using split_nonempty [of sep "s @ [c]"] by (cases "split sep (s @ [c])") auto
  from Cons r r' show ?case
    by (cases ls) (auto simp add: Let_def split: if_splits)
qed

lemma blank_iff: "trim l = [] \<longleftrightarrow> (\<forall>c \<in> set l. isWhiteSpace c)"
proof -
  have "(\<forall>c \<in> set (dropWhile isWhiteSpace l). isWhiteSpace c)
          \<longleftrightarrow> (\<forall>c \<in> set l. isWhiteSpace c)"
  proof
    assume rest: "\<forall>c \<in> set (dropWhile isWhiteSpace l). isWhiteSpace c"
    have "set l = set (takeWhile isWhiteSpace l) \<union> set (dropWhile isWhiteSpace l)"
      by (metis set_append takeWhile_dropWhile_id)
    with rest show "\<forall>c \<in> set l. isWhiteSpace c"
      by (auto dest: set_takeWhileD)
  next
    assume "\<forall>c \<in> set l. isWhiteSpace c"
    then show "\<forall>c \<in> set (dropWhile isWhiteSpace l). isWhiteSpace c"
      by (auto dest: set_dropWhileD)
  qed
  then show ?thesis
    by (simp add: trim_def dropWhile_eq_Nil_conv)
qed

lemma newline_white: "isWhiteSpace (CHR 0x0A)"
  by (simp add: isWhiteSpace_def)

text \<open>
  Removing white space at the start of a text: the first line that is not blank loses its
  leading white space, and nothing else changes.
\<close>

lemma lines_after_left_trim:
  "filter (\<lambda>l. trim l \<noteq> []) (split (CHR 0x0A) (dropWhile isWhiteSpace s))
     = (case filter (\<lambda>l. trim l \<noteq> []) (split (CHR 0x0A) s) of
          [] \<Rightarrow> []
        | l # rest \<Rightarrow> dropWhile isWhiteSpace l # rest)"
proof (induction s)
  case Nil
  then show ?case by (simp add: trim_def)
next
  case (Cons c s)
  obtain l ls where r: "split (CHR 0x0A) s = l # ls"
    using split_nonempty [of "CHR 0x0A" s] by (cases "split (CHR 0x0A) s") auto
  show ?case
  proof (cases "isWhiteSpace c")
    case False
    then have "c \<noteq> CHR 0x0A" using newline_white by auto
    moreover from False have "trim (c # l) \<noteq> []" by (auto simp add: blank_iff)
    ultimately show ?thesis using False r by (simp add: Let_def)
  next
    case True
    show ?thesis
    proof (cases "c = CHR 0x0A")
      case True
      then show ?thesis using Cons newline_white by (simp add: trim_def)
    next
      case False
      from True have same: "trim (c # l) = [] \<longleftrightarrow> trim l = []"
        by (simp add: blank_iff)
      show ?thesis
        using Cons True False r same by (cases "trim l = []") (simp_all add: Let_def)
    qed
  qed
qed

text \<open>
  Removing white space at the end of a text: the last line that is not blank loses its
  trailing white space, and nothing else changes.
\<close>

lemma lines_after_right_trim:
  "filter (\<lambda>l. trim l \<noteq> []) (split (CHR 0x0A) (rev (dropWhile isWhiteSpace (rev s))))
     = (let ls = filter (\<lambda>l. trim l \<noteq> []) (split (CHR 0x0A) s)
        in if ls = [] then []
           else butlast ls @ [rev (dropWhile isWhiteSpace (rev (last ls)))])"
proof (induction s rule: rev_induct)
  case Nil
  then show ?case by (simp add: trim_def)
next
  case (snoc c s)
  let ?r = "split (CHR 0x0A) s"
  have r: "?r \<noteq> []" by (rule split_nonempty)
  then have parts: "?r = butlast ?r @ [last ?r]" by simp
  show ?case
  proof (cases "isWhiteSpace c")
    case False
    then have c: "c \<noteq> CHR 0x0A" using newline_white by auto
    from False have "trim (last ?r @ [c]) \<noteq> []" by (auto simp add: blank_iff)
    with False c show ?thesis
      by (simp add: split_snoc Let_def)
  next
    case True
    show ?thesis
    proof (cases "c = CHR 0x0A")
      case True
      then show ?thesis using snoc newline_white by (simp add: split_snoc trim_def Let_def)
    next
      case False
      from True have same: "trim (last ?r @ [c]) = [] \<longleftrightarrow> trim (last ?r) = []"
        by (simp add: blank_iff)
      have kept: "filter (\<lambda>l. trim l \<noteq> []) ?r
          = filter (\<lambda>l. trim l \<noteq> []) (butlast ?r)
            @ (if trim (last ?r) = [] then [] else [last ?r])"
        by (subst parts) simp
      show ?thesis
        using snoc True False same kept
        by (cases "trim (last ?r) = []") (simp_all add: split_snoc Let_def)
    qed
  qed
qed

lemma lines_after_trim:
  "filter (\<lambda>l. trim l \<noteq> []) (split (CHR 0x0A) (trim s))
     = (let ls = filter (\<lambda>l. trim l \<noteq> []) (split (CHR 0x0A) s);
            first = dropWhile isWhiteSpace (hd ls) # tl ls
        in if ls = [] then []
           else butlast first @ [rev (dropWhile isWhiteSpace (rev (last first)))])"
proof -
  let ?ls = "filter (\<lambda>l. trim l \<noteq> []) (split (CHR 0x0A) s)"
  have left: "filter (\<lambda>l. trim l \<noteq> []) (split (CHR 0x0A) (dropWhile isWhiteSpace s))
      = (if ?ls = [] then [] else dropWhile isWhiteSpace (hd ?ls) # tl ?ls)"
    by (simp add: lines_after_left_trim split: list.splits)
  have "trim s = rev (dropWhile isWhiteSpace (rev (dropWhile isWhiteSpace s)))"
    by (simp add: trim_def)
  then show ?thesis
    by (simp only: lines_after_right_trim left Let_def) simp
qed

lemma records_of_lines:
  "filter truthy (map (parseOrNull parse) ls)
     = concat (map (\<lambda>line. case parse line of
                               None \<Rightarrow> []
                             | Some v \<Rightarrow> if truthy v then [v] else []) ls)"
  by (induction ls) (simp_all add: parseOrNull_def split: option.splits)

lemma readLogs_length: "length (readLogs parse content) \<le> 100"
  by (simp add: readLogs_def)

lemma readLogs_lines:
  assumes "\<forall>l \<in> set ls. CHR 0x0A \<notin> set l" and "CHR 0x0A \<notin> set tail"
  shows "readLogs parse (concat (map (\<lambda>l. l @ [CHR 0x0A]) ls) @ tail)
     = (let lines = filter (\<lambda>l. trim l \<noteq> []) (ls @ [tail]);
            first = dropWhile isWhiteSpace (hd lines) # tl lines;
            seen = (if lines = [] then []
                    else butlast first @ [rev (dropWhile isWhiteSpace (rev (last first)))])
        in take 100 (rev (concat (map (\<lambda>line. case parse line of
                                                 None \<Rightarrow> []
                                               | Some v \<Rightarrow> if truthy v then [v] else [])
                                      seen))))"
proof -
  have "split (CHR 0x0A) (concat (map (\<lambda>l. l @ [CHR 0x0A]) ls) @ tail) = ls @ [tail]"
    using assms by (rule split_lines)
  then show ?thesis
    by (simp only: readLogs_def lines_after_trim records_of_lines Let_def)
qed

lemma clean_ends:
  assumes "lines \<noteq> []" and "\<forall>l \<in> set lines. trim l \<noteq> []"
    and "\<not> isWhiteSpace (hd (hd lines))" and "\<not> isWhiteSpace (last (last lines))"
  shows "butlast (dropWhile isWhiteSpace (hd lines) # tl lines)
           @ [rev (dropWhile isWhiteSpace
                (rev (last (dropWhile isWhiteSpace (hd lines) # tl lines))))] = lines"
proof -
  have nonempty: "l \<noteq> []" if "l \<in> set lines" for l
    using assms(2) that by (auto simp add: trim_def)
  from assms(1) nonempty have "hd lines \<noteq> []" by simp
  with assms(3) have "dropWhile isWhiteSpace (hd lines) = hd lines"
    by (cases "hd lines") simp_all
  with assms(1) have first: "dropWhile isWhiteSpace (hd lines) # tl lines = lines"
    by simp
  from assms(1) nonempty have "last lines \<noteq> []" by simp
  with assms(4) have "dropWhile isWhiteSpace (rev (last lines)) = rev (last lines)"
    by (cases "rev (last lines)") (simp_all add: hd_rev)
  with first assms(1) show ?thesis by simp
qed

section \<open>The claims\<close>

text \<open>
  C1. Deny is evaluated before allow: whenever the normalized identity matches an entry of
  \<open>deniedUsers\<close> (the identity contains the entry or the entry contains the identity),
  \<open>canInstallSkill\<close> returns \<open>allowed = false\<close>, with the reason of the deny list, whatever
  \<open>allowedUsers\<close> and \<open>defaultPolicy\<close> hold.
\<close>

theorem deny_precedence:
  assumes "\<exists>u \<in> set (deniedUsers cfg). matchesEntry (normalizeUserId userId) u"
  shows "canInstallSkill cfg userId =
           \<lparr>allowed = False, reason = ''Benutzer ist auf der Sperrliste''\<rparr>"
  using assms by (simp add: canInstallSkill_def list_ex_iff)

text \<open>
  At a policy that lists \<open>alice\<close> as allowed and as denied, with the default
  \<open>allow\<close>, \<open>whatsapp:alice\<close> is denied.
\<close>

theorem deny_precedence_witness:
  "(\<exists>u \<in> set [''alice'']. matchesEntry (normalizeUserId ''whatsapp:alice'') u)
   \<and> (\<exists>u \<in> set [''alice'', ''bob'']. matchesEntry (normalizeUserId ''whatsapp:alice'') u)
   \<and> \<not> allowed (canInstallSkill
          \<lparr>port = Num 18803, password = [], defaultPolicy = ''allow'',
           allowedUsers = [''alice'', ''bob''], deniedUsers = [''alice''],
           logInstallAttempts = True\<rparr> ''whatsapp:alice'')"
  using deny_precedence [of "\<lparr>port = Num 18803, password = [], defaultPolicy = ''allow'',
           allowedUsers = [''alice'', ''bob''], deniedUsers = [''alice''],
           logInstallAttempts = True\<rparr>" "''whatsapp:alice''"]
  by (simp add: matchesEntry_def normalizeUserId_def)

text \<open>
  C2, as stated: every mutating route keeps \<open>allowedUsers\<close> and \<open>deniedUsers\<close> disjoint.
  \<open>PUT /api/config\<close> does not: with \<open>mallory\<close> denied, the body
  \<open>{"allowedUsers":["mallory"]}\<close> is stored as it is, and \<open>mallory\<close> is then on both
  lists.
\<close>

theorem put_config_overlap_counterexample:
  "set (allowedUsers (config sampleState)) \<inter> set (deniedUsers (config sampleState)) = {}
   \<and> \<not> isl (handleRequest sampleParse sampleStringify [] sampleState
         \<lparr>reqMethod = ''PUT'', pathname = ''/api/config'', authParam = Some ''secret'',
          userIdParam = None, skillParam = None, reqBody = allowedUsersBody ''mallory''\<rparr>)
   \<and> allowedUsers (config (fst (projr (handleRequest sampleParse sampleStringify []
         sampleState
         \<lparr>reqMethod = ''PUT'', pathname = ''/api/config'', authParam = Some ''secret'',
          userIdParam = None, skillParam = None, reqBody = allowedUsersBody ''mallory''\<rparr>))))
       = [''mallory'']
   \<and> deniedUsers (config (fst (projr (handleRequest sampleParse sampleStringify []
         sampleState
         \<lparr>reqMethod = ''PUT'', pathname = ''/api/config'', authParam = Some ''secret'',
          userIdParam = None, skillParam = None, reqBody = allowedUsersBody ''mallory''\<rparr>))))
       = [''mallory'']"
proof -
  have parsed: "sampleParse (allowedUsersBody ''mallory'')
                  = Some (JObj [(''allowedUsers'', JArr [JStr ''mallory''])])"
    by (simp add: sampleParse_def allowedUsersBody_def userIdBody_def userIdFiveBody_def
        dq_def)
  show ?thesis
    by (simp add: handleRequest_def handleRequestRaw_def Let_def methodOf_def isAdmin_def
        updateConfig_def parsed saveConfigRaw_def sampleState_def rawState_def rawConfig_def
        typedState_def typedConfig_def)
qed

text \<open>
  C2, amended. Let the two lists be arrays of which no entry is strictly equal to an entry
  of the other. A request to \<open>POST /api/users/allow\<close>, \<open>POST /api/users/deny\<close>,
  \<open>POST /api/users/remove\<close> or \<open>PUT /api/config\<close> always completes. After any request that
  completes, but a \<open>PUT /api/config\<close> whose body names one of the lists, the two lists are
  arrays again of which no entry is strictly equal to an entry of the other: so for every
  body of the three \<open>/api/users\<close> routes, a \<open>userId\<close> that is no string included. An admin
  \<open>PUT /api/config\<close> with an object as body stores each list the body names as given and
  leaves the other as it is.
\<close>

theorem mutations_keep_lists_disjoint:
  assumes "rawAllowedUsers (config st) = JArr as" and "rawDeniedUsers (config st) = JArr ds"
    and "\<forall>a \<in> set as. \<forall>d \<in> set ds. \<not> strictEquals a d"
  shows "((methodOf req, pathname req) \<in>
             {(''POST'', ''/api/users/allow''), (''POST'', ''/api/users/deny''),
              (''POST'', ''/api/users/remove''), (''PUT'', ''/api/config'')}
          \<longrightarrow> (\<exists>st' response.
                handleRequestRaw parse stringify now st req = Inr (st', response)))
       \<and> (\<forall>st' response.
            handleRequestRaw parse stringify now st req = Inr (st', response)
            \<and> \<not> (methodOf req = ''PUT'' \<and> pathname req = ''/api/config''
                  \<and> (\<exists>kvs. parse (reqBody req) = Some (JObj kvs)
                        \<and> (map_of kvs ''allowedUsers'' \<noteq> None
                            \<or> map_of kvs ''deniedUsers'' \<noteq> None)))
            \<longrightarrow> (\<exists>as' ds'. rawAllowedUsers (config st') = JArr as'
                   \<and> rawDeniedUsers (config st') = JArr ds'
                   \<and> (\<forall>a \<in> set as'. \<forall>d \<in> set ds'. \<not> strictEquals a d)))
       \<and> (methodOf req = ''PUT'' \<and> pathname req = ''/api/config''
            \<and> isAdmin (authParam req) (rawPassword (config st))
            \<and> parse (reqBody req) = Some (JObj kvs)
          \<longrightarrow> (\<forall>st' response.
                handleRequestRaw parse stringify now st req = Inr (st', response)
                \<longrightarrow> rawAllowedUsers (config st')
                      = (case map_of kvs ''allowedUsers'' of
                           None \<Rightarrow> rawAllowedUsers (config st) | Some v \<Rightarrow> v)
                  \<and> rawDeniedUsers (config st')
                      = (case map_of kvs ''deniedUsers'' of
                           None \<Rightarrow> rawDeniedUsers (config st) | Some v \<Rightarrow> v)))"
proof (intro conjI impI allI)
  assume "(methodOf req, pathname req) \<in>
             {(''POST'', ''/api/users/allow''), (''POST'', ''/api/users/deny''),
              (''POST'', ''/api/users/remove''), (''PUT'', ''/api/config'')}"
  then have "(methodOf req, pathname req) \<noteq> (''GET'', ''/api/check'')" by auto
  then show "\<exists>st' response. handleRequestRaw parse stringify now st req = Inr (st', response)"
    by (rule handleRequestRaw_completes)
next
  fix st' response
  assume run: "handleRequestRaw parse stringify now st req = Inr (st', response)
            \<and> \<not> (methodOf req = ''PUT'' \<and> pathname req = ''/api/config''
                  \<and> (\<exists>kvs. parse (reqBody req) = Some (JObj kvs)
                        \<and> (map_of kvs ''allowedUsers'' \<noteq> None
                            \<or> map_of kvs ''deniedUsers'' \<noteq> None)))"
  from handleRequestRaw_cases [of parse stringify now st req]
  consider (put) "handleRequestRaw parse stringify now st req
                    = Inr (updateConfig parse stringify st (reqBody req))"
                 "methodOf req = ''PUT''" "pathname req = ''/api/config''"
    | (allow) "handleRequestRaw parse stringify now st req
                 = Inr (addUser parse stringify st (reqBody req))"
    | (deny) "handleRequestRaw parse stringify now st req
                = Inr (denyUser parse stringify st (reqBody req))"
    | (remove) "handleRequestRaw parse stringify now st req
                  = Inr (removeUser parse stringify st (reqBody req))"
    | (check) "handleRequestRaw parse stringify now st req
                 = checkPermission stringify now st req"
    | (same) "\<exists>r. handleRequestRaw parse stringify now st req = Inr (st, r)"
    by blast
  then show "\<exists>as' ds'. rawAllowedUsers (config st') = JArr as'
                   \<and> rawDeniedUsers (config st') = JArr ds'
                   \<and> (\<forall>a \<in> set as'. \<forall>d \<in> set ds'. \<not> strictEquals a d)"
  proof cases
    case put
    with run have names: "\<forall>kvs. parse (reqBody req) = Some (JObj kvs) \<longrightarrow>
             map_of kvs ''allowedUsers'' = None \<and> map_of kvs ''deniedUsers'' = None"
      by blast
    from put run have "st' = fst (updateConfig parse stringify st (reqBody req))"
      by (metis fst_conv sum.inject(2))
    moreover note updateConfig_lists [of parse "reqBody req" stringify st, OF names]
    ultimately show ?thesis using assms
      by simp
  next
    case allow
    with run have "st' = fst (addUser parse stringify st (reqBody req))"
      by (metis fst_conv sum.inject(2))
    moreover note addUser_disjoint [OF assms, of parse stringify "reqBody req"]
    ultimately show ?thesis
      by simp
  next
    case deny
    with run have "st' = fst (denyUser parse stringify st (reqBody req))"
      by (metis fst_conv sum.inject(2))
    moreover note denyUser_disjoint [OF assms, of parse stringify "reqBody req"]
    ultimately show ?thesis
      by simp
  next
    case remove
    with run have "st' = fst (removeUser parse stringify st (reqBody req))"
      by (metis fst_conv sum.inject(2))
    moreover note removeUser_disjoint [OF assms, of parse stringify "reqBody req"]
    ultimately show ?thesis
      by simp
  next
    case check
    with run have "config st' = config st"
      using checkPermission_config [of stringify now st req st' response] by simp
    with assms show ?thesis by simp
  next
    case same
    with run assms show ?thesis by auto
  qed
next
  fix st' response
  assume put: "methodOf req = ''PUT'' \<and> pathname req = ''/api/config''
            \<and> isAdmin (authParam req) (rawPassword (config st))
            \<and> parse (reqBody req) = Some (JObj kvs)"
    and run: "handleRequestRaw parse stringify now st req = Inr (st', response)"
  from put have "handleRequestRaw parse stringify now st req
      = Inr (updateConfig parse stringify st (reqBody req))"
    by (simp add: handleRequestRaw_def Let_def)
  with run put
  have st': "st' = fst (updateConfig parse stringify st (reqBody req))"
    by (metis fst_conv sum.inject(2))
  from put have "parse (reqBody req) = Some (JObj kvs)" "ownProps (JObj kvs) = Inr (map_of kvs)"
    by simp_all
  note fields = updateConfig_fields
      [of parse "reqBody req" "JObj kvs" "map_of kvs" stringify st, OF this]
  show "rawAllowedUsers (config st')
          = (case map_of kvs ''allowedUsers'' of
               None \<Rightarrow> rawAllowedUsers (config st) | Some v \<Rightarrow> v)"
    unfolding st' fields by (simp add: saveConfigRaw_def override_case)
  show "rawDeniedUsers (config st')
          = (case map_of kvs ''deniedUsers'' of
               None \<Rightarrow> rawDeniedUsers (config st) | Some v \<Rightarrow> v)"
    unfolding st' fields by (simp add: saveConfigRaw_def override_case)
qed

text \<open>
  Allowing the user id \<open>5\<close>, a number, appends it to the allow list; the lists stay
  disjoint.
\<close>

theorem mutations_keep_lists_disjoint_witness:
  "\<not> isl (handleRequestRaw sampleParse sampleStringify [] (rawState sampleState)
         \<lparr>reqMethod = ''POST'', pathname = ''/api/users/allow'', authParam = Some ''secret'',
          userIdParam = None, skillParam = None, reqBody = userIdFiveBody\<rparr>)
   \<and> rawAllowedUsers (config (fst (projr (handleRequestRaw sampleParse sampleStringify []
         (rawState sampleState)
         \<lparr>reqMethod = ''POST'', pathname = ''/api/users/allow'', authParam = Some ''secret'',
          userIdParam = None, skillParam = None, reqBody = userIdFiveBody\<rparr>))))
       = JArr [JStr ''eve'', JNum (Num 5)]
   \<and> rawDeniedUsers (config (fst (projr (handleRequestRaw sampleParse sampleStringify []
         (rawState sampleState)
         \<lparr>reqMethod = ''POST'', pathname = ''/api/users/allow'', authParam = Some ''secret'',
          userIdParam = None, skillParam = None, reqBody = userIdFiveBody\<rparr>))))
       = JArr [JStr ''mallory'']
   \<and> \<not> (\<exists>a \<in> set [JStr ''eve'', JNum (Num 5)]. \<exists>d \<in> set [JStr ''mallory''].
           strictEquals a d)"
proof -
  let ?st = "rawState sampleState"
  let ?req = "\<lparr>reqMethod = ''POST'', pathname = ''/api/users/allow'',
               authParam = Some ''secret'', userIdParam = None, skillParam = None,
               reqBody = userIdFiveBody\<rparr>"
  have lists: "rawAllowedUsers (config ?st) = JArr [JStr ''eve'']"
    "rawDeniedUsers (config ?st) = JArr [JStr ''mallory'']"
    by (simp_all add: rawState_def rawConfig_def sampleState_def)
  have before: "\<forall>a \<in> set [JStr ''eve'']. \<forall>d \<in> set [JStr ''mallory'']. \<not> strictEquals a d"
    by simp
  have route: "(methodOf ?req, pathname ?req) \<in>
             {(''POST'', ''/api/users/allow''), (''POST'', ''/api/users/deny''),
              (''POST'', ''/api/users/remove''), (''PUT'', ''/api/config'')}"
    by (simp add: methodOf_def)
  have other: "\<not> (methodOf ?req = ''PUT'' \<and> pathname ?req = ''/api/config''
                  \<and> (\<exists>kvs. sampleParse (reqBody ?req) = Some (JObj kvs)
                        \<and> (map_of kvs ''allowedUsers'' \<noteq> None
                            \<or> map_of kvs ''deniedUsers'' \<noteq> None)))"
    by (simp add: methodOf_def)
  note spec = mutations_keep_lists_disjoint
    [OF lists before, of ?req sampleParse sampleStringify "[]" "[]"]
  from spec route obtain st' response
    where run: "handleRequestRaw sampleParse sampleStringify [] ?st ?req = Inr (st', response)"
    by blast
  with spec other obtain as' ds'
    where after: "rawAllowedUsers (config st') = JArr as'"
      "rawDeniedUsers (config st') = JArr ds'"
      "\<forall>a \<in> set as'. \<forall>d \<in> set ds'. \<not> strictEquals a d"
    by blast
  have parsed: "sampleParse userIdFiveBody = Some (JObj [(''userId'', JNum (Num 5))])"
    by (simp add: sampleParse_def userIdFiveBody_def userIdBody_def dq_def)
  have "handleRequestRaw sampleParse sampleStringify [] ?st ?req
          = Inr (addUser sampleParse sampleStringify ?st userIdFiveBody)"
    by (simp add: handleRequestRaw_def Let_def methodOf_def isAdmin_def rawState_def
        rawConfig_def sampleState_def)
  with run have st': "st' = fst (addUser sampleParse sampleStringify ?st userIdFiveBody)"
    by simp
  have allowed: "rawAllowedUsers (config st') = JArr [JStr ''eve'', JNum (Num 5)]"
    and denied: "rawDeniedUsers (config st') = JArr [JStr ''mallory'']"
    unfolding st'
    by (simp_all add: addUser_def readUserId_def parsed lists saveConfigRaw_def Let_def)
  from after allowed denied
  have "\<forall>a \<in> set [JStr ''eve'', JNum (Num 5)]. \<forall>d \<in> set [JStr ''mallory''].
          \<not> strictEquals a d"
    by simp
  with run allowed denied show ?thesis
    by simp
qed

text \<open>
  C3. On the six admin routes a request is served as admin exactly when its \<open>auth\<close>
  parameter equals the configured password: otherwise the answer is 401 with the body
  \<open>{error: "Unauthorized"}\<close> and the state, the policy included, is unchanged; with the
  right parameter the answer is never 401. With the empty password, a request without
  \<open>auth\<close> is rejected and a request with the empty \<open>auth\<close> is served.
\<close>

theorem admin_gate:
  assumes "(methodOf req, pathname req) \<in>
             {(''GET'', ''/api/config''), (''PUT'', ''/api/config''),
              (''POST'', ''/api/users/allow''), (''POST'', ''/api/users/deny''),
              (''POST'', ''/api/users/remove''), (''GET'', ''/api/logs'')}"
  shows "(authParam req \<noteq> Some (password (config st)) \<longrightarrow>
            handleRequest parse stringify now st req
              = Inr (st, \<lparr>status = 401,
                          headers = [(''Content-Type'', ''application/json''),
                                     (''Access-Control-Allow-Origin'', ''*'')],
                          body = Some (JObj [(''error'', JStr ''Unauthorized'')])\<rparr>))
       \<and> (authParam req = Some (password (config st)) \<longrightarrow>
            (\<forall>st' r. handleRequest parse stringify now st req = Inr (st', r)
                      \<longrightarrow> status r \<noteq> 401))
       \<and> (password (config st) = [] \<and> authParam req = None \<longrightarrow>
            handleRequest parse stringify now st req = Inr (st, unauthorized))
       \<and> (password (config st) = [] \<and> authParam req = Some [] \<longrightarrow>
            (\<forall>st' r. handleRequest parse stringify now st req = Inr (st', r)
                      \<longrightarrow> status r \<noteq> 401))"
proof -
  have secret: "rawPassword (config (rawState st)) = JStr (password (config st))"
    by (simp add: rawState_def rawConfig_def)
  have rejected: "handleRequest parse stringify now st req = Inr (st, unauthorized)"
    if "authParam req \<noteq> Some (password (config st))"
  proof -
    from that have "\<not> isAdmin (authParam req) (rawPassword (config (rawState st)))"
      by (simp add: secret isAdmin_typed)
    from handleRequestRaw_rejected [OF assms this]
    show ?thesis by (simp add: handleRequest_def typedState_rawState)
  qed
  have granted: "status r \<noteq> 401"
    if "authParam req = Some (password (config st))"
      and "handleRequest parse stringify now st req = Inr (st', r)" for st' r
  proof -
    from that(1) have "isAdmin (authParam req) (rawPassword (config (rawState st)))"
      by (simp add: secret isAdmin_typed)
    from handleRequestRaw_granted [OF assms this, of parse stringify now] that(2)
    show ?thesis
      by (auto simp add: handleRequest_def split: option.splits)
  qed
  show ?thesis
    using rejected granted by (auto simp add: unauthorized_def sendJson_def)
qed

text \<open>
  With the empty password, \<open>GET /api/config\<close> without \<open>auth\<close> is answered 401 and
  with \<open>auth=\<close> it is not.
\<close>

theorem admin_gate_witness:
  "handleRequest sampleParse sampleStringify []
     (sampleState\<lparr>config := (config sampleState)\<lparr>password := []\<rparr>\<rparr>)
     \<lparr>reqMethod = ''GET'', pathname = ''/api/config'', authParam = None,
      userIdParam = None, skillParam = None, reqBody = []\<rparr>
   = Inr (sampleState\<lparr>config := (config sampleState)\<lparr>password := []\<rparr>\<rparr>, unauthorized)
   \<and> status (snd (projr (handleRequest sampleParse sampleStringify []
         (sampleState\<lparr>config := (config sampleState)\<lparr>password := []\<rparr>\<rparr>)
         \<lparr>reqMethod = ''GET'', pathname = ''/api/config'', authParam = Some [],
          userIdParam = None, skillParam = None, reqBody = []\<rparr>))) \<noteq> 401"
proof -
  let ?st = "sampleState\<lparr>config := (config sampleState)\<lparr>password := []\<rparr>\<rparr>"
  let ?absent = "\<lparr>reqMethod = ''GET'', pathname = ''/api/config'', authParam = None,
                  userIdParam = None, skillParam = None, reqBody = []\<rparr>"
  let ?empty = "\<lparr>reqMethod = ''GET'', pathname = ''/api/config'', authParam = Some [],
                 userIdParam = None, skillParam = None, reqBody = []\<rparr>"
  have endpoint: "(methodOf r, pathname r) \<in>
             {(''GET'', ''/api/config''), (''PUT'', ''/api/config''),
              (''POST'', ''/api/users/allow''), (''POST'', ''/api/users/deny''),
              (''POST'', ''/api/users/remove''), (''GET'', ''/api/logs'')}"
    if "r = ?absent \<or> r = ?empty" for r
    using that by (auto simp add: methodOf_def)
  have secret: "password (config ?st) = []" by simp
  have run: "handleRequest sampleParse sampleStringify [] ?st ?empty
               = Inr (?st, sendJson (configJson (rawConfig (config ?st))) 200)"
    by (simp add: handleRequest_def handleRequestRaw_def Let_def methodOf_def isAdmin_def
        rawState_def rawConfig_def typedState_def typedConfig_def sampleState_def)
  from admin_gate [OF endpoint, of ?absent ?st sampleParse sampleStringify "[]"] secret
  have "handleRequest sampleParse sampleStringify [] ?st ?absent = Inr (?st, unauthorized)"
    by (simp add: unauthorized_def sendJson_def)
  moreover
  from admin_gate [OF endpoint, of ?empty ?st sampleParse sampleStringify "[]"] secret run
  have "status (sendJson (configJson (rawConfig (config ?st))) 200) \<noteq> 401"
    by simp
  ultimately show ?thesis using run by simp
qed

text \<open>
  C4. Matching is containment in either direction: an entry matches the normalized identity
  exactly when the identity contains the entry or the entry contains the identity.
  \<open>canInstallSkill\<close> answers with the decision of the deny list exactly when some denied
  entry and the identity contain one another, and with the decision of the allow list
  exactly when no denied entry does and some allowed entry does. An identity that
  normalizes to the empty string therefore matches every entry, and with a non-empty
  \<open>deniedUsers\<close> the decision for it is \<open>allowed = false\<close>.
\<close>

theorem bidirectional_containment:
  "(matchesEntry n u \<longleftrightarrow> (\<exists>p q. n = p @ u @ q) \<or> (\<exists>p q. u = p @ n @ q))
   \<and> (canInstallSkill cfg userId
         = \<lparr>allowed = False, reason = ''Benutzer ist auf der Sperrliste''\<rparr>
       \<longleftrightarrow> (\<exists>u \<in> set (deniedUsers cfg).
              (\<exists>p q. normalizeUserId userId = p @ u @ q)
              \<or> (\<exists>p q. u = p @ normalizeUserId userId @ q)))
   \<and> (canInstallSkill cfg userId
         = \<lparr>allowed = True, reason = ''Benutzer ist auf der Whitelist''\<rparr>
       \<longleftrightarrow> \<not> (\<exists>u \<in> set (deniedUsers cfg).
              (\<exists>p q. normalizeUserId userId = p @ u @ q)
              \<or> (\<exists>p q. u = p @ normalizeUserId userId @ q))
           \<and> (\<exists>u \<in> set (allowedUsers cfg).
              (\<exists>p q. normalizeUserId userId = p @ u @ q)
              \<or> (\<exists>p q. u = p @ normalizeUserId userId @ q)))
   \<and> (normalizeUserId userId = [] \<longrightarrow> matchesEntry (normalizeUserId userId) u)
   \<and> (normalizeUserId userId = [] \<and> deniedUsers cfg \<noteq> []
        \<longrightarrow> \<not> allowed (canInstallSkill cfg userId))"
proof (intro conjI impI)
  show match: "matchesEntry n u \<longleftrightarrow> (\<exists>p q. n = p @ u @ q) \<or> (\<exists>p q. u = p @ n @ q)"
    for n u
    by (simp only: matchesEntry_def includes_iff)
  have denied: "list_ex (matchesEntry (normalizeUserId userId)) (deniedUsers cfg)
      \<longleftrightarrow> (\<exists>u \<in> set (deniedUsers cfg).
              (\<exists>p q. normalizeUserId userId = p @ u @ q)
              \<or> (\<exists>p q. u = p @ normalizeUserId userId @ q))"
    by (auto simp add: list_ex_iff match)
  have listed: "list_ex (matchesEntry (normalizeUserId userId)) (allowedUsers cfg)
      \<longleftrightarrow> (\<exists>u \<in> set (allowedUsers cfg).
              (\<exists>p q. normalizeUserId userId = p @ u @ q)
              \<or> (\<exists>p q. u = p @ normalizeUserId userId @ q))"
    by (auto simp add: list_ex_iff match)
  show "canInstallSkill cfg userId
         = \<lparr>allowed = False, reason = ''Benutzer ist auf der Sperrliste''\<rparr>
       \<longleftrightarrow> (\<exists>u \<in> set (deniedUsers cfg).
              (\<exists>p q. normalizeUserId userId = p @ u @ q)
              \<or> (\<exists>p q. u = p @ normalizeUserId userId @ q))"
    unfolding denied [symmetric] by (simp add: canInstallSkill_def Let_def)
  show "canInstallSkill cfg userId
         = \<lparr>allowed = True, reason = ''Benutzer ist auf der Whitelist''\<rparr>
       \<longleftrightarrow> \<not> (\<exists>u \<in> set (deniedUsers cfg).
              (\<exists>p q. normalizeUserId userId = p @ u @ q)
              \<or> (\<exists>p q. u = p @ normalizeUserId userId @ q))
           \<and> (\<exists>u \<in> set (allowedUsers cfg).
              (\<exists>p q. normalizeUserId userId = p @ u @ q)
              \<or> (\<exists>p q. u = p @ normalizeUserId userId @ q))"
    unfolding denied [symmetric] listed [symmetric]
    by (simp add: canInstallSkill_def Let_def)
next
  assume "normalizeUserId userId = []"
  then show "matchesEntry (normalizeUserId userId) u"
    by (simp add: matchesEntry_def includes_empty)
next
  assume h: "normalizeUserId userId = [] \<and> deniedUsers cfg \<noteq> []"
  then obtain d ds where "deniedUsers cfg = d # ds"
    by (cases "deniedUsers cfg") auto
  with h show "\<not> allowed (canInstallSkill cfg userId)"
    by (simp add: canInstallSkill_def matchesEntry_def includes_empty)
qed

text \<open>
  \<open>telegram:\<close> normalizes to the empty string and is denied as soon as one user is
  denied. \<open>alice smith\<close> is allowed by the entry \<open>alice\<close>, which it contains, and
  \<open>alice\<close> by the entry \<open>alice smith\<close>, which contains it.
\<close>

theorem bidirectional_containment_witness:
  "normalizeUserId ''telegram:'' = []
   \<and> matchesEntry (normalizeUserId ''telegram:'') ''bob''
   \<and> \<not> allowed (canInstallSkill
          \<lparr>port = Num 18803, password = [], defaultPolicy = ''allow'',
           allowedUsers = [], deniedUsers = [''bob''],
           logInstallAttempts = True\<rparr> ''telegram:'')
   \<and> canInstallSkill
        \<lparr>port = Num 18803, password = [], defaultPolicy = ''deny'',
         allowedUsers = [''alice''], deniedUsers = [''bob''],
         logInstallAttempts = True\<rparr> ''whatsapp:alice smith''
      = \<lparr>allowed = True, reason = ''Benutzer ist auf der Whitelist''\<rparr>
   \<and> (\<exists>u \<in> set [''alice''].
          (\<exists>p q. normalizeUserId ''whatsapp:alice smith'' = p @ u @ q)
          \<or> (\<exists>p q. u = p @ normalizeUserId ''whatsapp:alice smith'' @ q))
   \<and> canInstallSkill
        \<lparr>port = Num 18803, password = [], defaultPolicy = ''deny'',
         allowedUsers = [''alice smith''], deniedUsers = [''bob''],
         logInstallAttempts = True\<rparr> ''whatsapp:alice''
      = \<lparr>allowed = True, reason = ''Benutzer ist auf der Whitelist''\<rparr>
   \<and> (\<exists>u \<in> set [''alice smith''].
          (\<exists>p q. normalizeUserId ''whatsapp:alice'' = p @ u @ q)
          \<or> (\<exists>p q. u = p @ normalizeUserId ''whatsapp:alice'' @ q))"
proof -
  let ?cfg = "\<lparr>port = Num 18803, password = [], defaultPolicy = ''allow'',
           allowedUsers = [], deniedUsers = [''bob''], logInstallAttempts = True\<rparr>"
  let ?entry = "\<lparr>port = Num 18803, password = [], defaultPolicy = ''deny'',
         allowedUsers = [''alice''], deniedUsers = [''bob''],
         logInstallAttempts = True\<rparr>"
  let ?longer = "\<lparr>port = Num 18803, password = [], defaultPolicy = ''deny'',
         allowedUsers = [''alice smith''], deniedUsers = [''bob''],
         logInstallAttempts = True\<rparr>"
  have empty: "normalizeUserId ''telegram:'' = []"
    by (simp add: normalizeUserId_def)
  have nonempty: "deniedUsers ?cfg \<noteq> []"
    by simp
  note spec = bidirectional_containment [of "[]" "''bob''" ?cfg "''telegram:''"]
  from spec empty have first: "matchesEntry (normalizeUserId ''telegram:'') ''bob''"
    by blast
  from spec empty nonempty
  have second: "\<not> allowed (canInstallSkill ?cfg ''telegram:'')"
    by blast
  have third: "canInstallSkill ?entry ''whatsapp:alice smith''
      = \<lparr>allowed = True, reason = ''Benutzer ist auf der Whitelist''\<rparr>"
    by (simp add: canInstallSkill_def matchesEntry_def normalizeUserId_def)
  from bidirectional_containment [of "[]" "[]" ?entry "''whatsapp:alice smith''"] third
  have third': "\<exists>u \<in> set (allowedUsers ?entry).
          (\<exists>p q. normalizeUserId ''whatsapp:alice smith'' = p @ u @ q)
          \<or> (\<exists>p q. u = p @ normalizeUserId ''whatsapp:alice smith'' @ q)"
    by blast
  have fourth: "canInstallSkill ?longer ''whatsapp:alice''
      = \<lparr>allowed = True, reason = ''Benutzer ist auf der Whitelist''\<rparr>"
    by (simp add: canInstallSkill_def matchesEntry_def normalizeUserId_def)
  from bidirectional_containment [of "[]" "[]" ?longer "''whatsapp:alice''"] fourth
  have fourth': "\<exists>u \<in> set (allowedUsers ?longer).
          (\<exists>p q. normalizeUserId ''whatsapp:alice'' = p @ u @ q)
          \<or> (\<exists>p q. u = p @ normalizeUserId ''whatsapp:alice'' @ q)"
    by blast
  have lists: "allowedUsers ?entry = [''alice'']" "allowedUsers ?longer = [''alice smith'']"
    by simp_all
  show ?thesis
    using empty first second third third' fourth fourth' unfolding lists by blast
qed

text \<open>
  C5. When the normalized identity matches no entry of \<open>deniedUsers\<close> and no entry of
  \<open>allowedUsers\<close>, the returned \<open>allowed\<close> is the truth value of
  \<open>defaultPolicy = ''allow''\<close>.
\<close>

theorem default_policy_fallback:
  assumes "\<not> (\<exists>u \<in> set (deniedUsers cfg). matchesEntry (normalizeUserId userId) u)"
    and "\<not> (\<exists>u \<in> set (allowedUsers cfg). matchesEntry (normalizeUserId userId) u)"
  shows "allowed (canInstallSkill cfg userId) = (defaultPolicy cfg = ''allow'')"
  using assms by (simp add: canInstallSkill_def list_ex_iff)

text \<open>
  \<open>bob\<close>, on neither list, is allowed under the default \<open>allow\<close> and denied under
  the default \<open>deny\<close>.
\<close>

theorem default_policy_fallback_witness:
  "allowed (canInstallSkill
       \<lparr>port = Num 18803, password = [], defaultPolicy = ''allow'',
        allowedUsers = [''alice''], deniedUsers = [''eve''],
        logInstallAttempts = True\<rparr> ''bob'')
   \<and> \<not> allowed (canInstallSkill
       \<lparr>port = Num 18803, password = [], defaultPolicy = ''deny'',
        allowedUsers = [''alice''], deniedUsers = [''eve''],
        logInstallAttempts = True\<rparr> ''bob'')"
  using default_policy_fallback [of "\<lparr>port = Num 18803, password = [], defaultPolicy = ''allow'',
        allowedUsers = [''alice''], deniedUsers = [''eve''],
        logInstallAttempts = True\<rparr>" "''bob''"]
    default_policy_fallback [of "\<lparr>port = Num 18803, password = [], defaultPolicy = ''deny'',
        allowedUsers = [''alice''], deniedUsers = [''eve''],
        logInstallAttempts = True\<rparr>" "''bob''"]
  by (simp add: matchesEntry_def normalizeUserId_def)

text \<open>
  C6. Normalization removes one leading \<open>whatsapp:\<close>, \<open>telegram:\<close> or \<open>discord:\<close> and
  nothing more (a second prefix behind it stays), and leaves every string that starts with
  none of the three as it is: a prefix further inside the string or in another case is
  not removed. It is total and maps the empty string to itself.
\<close>

theorem normalize_strips_one_prefix:
  "(p \<in> {''whatsapp:'', ''telegram:'', ''discord:''} \<longrightarrow> normalizeUserId (p @ rest) = rest)
   \<and> ((\<forall>p \<in> {''whatsapp:'', ''telegram:'', ''discord:''}. \<not> prefix p s)
        \<longrightarrow> normalizeUserId s = s)
   \<and> normalizeUserId ''whatsapp:whatsapp:x'' = ''whatsapp:x''
   \<and> normalizeUserId ''x whatsapp:y'' = ''x whatsapp:y''
   \<and> normalizeUserId ''WhatsApp:y'' = ''WhatsApp:y''
   \<and> normalizeUserId [] = []"
  by (auto simp add: normalizeUserId_def)

text \<open>
  One \<open>discord:\<close> is removed from \<open>discord:discord:carol\<close>, and \<open>carol\<close> stays.
\<close>

theorem normalize_strips_one_prefix_witness:
  "normalizeUserId (''discord:'' @ ''discord:carol'') = ''discord:carol''
   \<and> normalizeUserId ''carol'' = ''carol''"
  using normalize_strips_one_prefix [of "''discord:''" "''discord:carol''" "''carol''"]
  by simp

text \<open>
  C7, as stated: with the policy \<open>{defaultPolicy: "deny", allowedUsers: ["alice"],
  deniedUsers: []}\<close> the decision for \<open>whatsapp:alice\<close> would be \<open>allowed = true\<close> with the
  reason \<open>user is on the allowlist\<close>. The decision is allowed, but the reason the code
  returns is another string.
\<close>

theorem allowlist_scenario_reason_counterexample:
  "canInstallSkill
     \<lparr>port = Num 18803, password = [], defaultPolicy = ''deny'', allowedUsers = [''alice''],
      deniedUsers = [], logInstallAttempts = True\<rparr> ''whatsapp:alice''
   \<noteq> \<lparr>allowed = True, reason = ''user is on the allowlist''\<rparr>"
  by (simp add: canInstallSkill_def matchesEntry_def normalizeUserId_def)

text \<open>
  C7, amended: with that policy (whatever the port, the password and the logging flag) the
  decision for \<open>whatsapp:alice\<close> is \<open>allowed = true\<close> with the reason
  \<open>Benutzer ist auf der Whitelist\<close>.
\<close>

theorem allowlist_scenario:
  "canInstallSkill
     \<lparr>port = pt, password = pw, defaultPolicy = ''deny'', allowedUsers = [''alice''],
      deniedUsers = [], logInstallAttempts = lg\<rparr> ''whatsapp:alice''
   = \<lparr>allowed = True, reason = ''Benutzer ist auf der Whitelist''\<rparr>"
  by (simp add: canInstallSkill_def matchesEntry_def normalizeUserId_def)

text \<open>
  C8. When \<open>JSON.parse\<close> reads back what \<open>JSON.stringify\<close> wrote for the saved object,
  \<open>loadConfig\<close> after \<open>saveConfig\<close> returns the \<open>allowedUsers\<close>, \<open>deniedUsers\<close>,
  \<open>defaultPolicy\<close> and \<open>logInstallAttempts\<close> of the configuration that was saved, with the
  default port and password. The file is the text of an object with these four properties
  only, and it is the same whatever the password and the port are.
\<close>

theorem save_then_load:
  assumes "parse (stringify 2 (toSave (config st))) = Some (toSave (config st))"
  shows "loadConfig parse (configFile (saveConfig stringify st))
           = Inr \<lparr>port = Num 18803, password = [],
                  defaultPolicy = defaultPolicy (config st),
                  allowedUsers = allowedUsers (config st),
                  deniedUsers = deniedUsers (config st),
                  logInstallAttempts = logInstallAttempts (config st)\<rparr>
       \<and> configFile (saveConfig stringify st)
           = Some (stringify 2
               (JObj [(''allowedUsers'', JArr (map JStr (allowedUsers (config st)))),
                      (''deniedUsers'', JArr (map JStr (deniedUsers (config st)))),
                      (''defaultPolicy'', JStr (defaultPolicy (config st))),
                      (''logInstallAttempts'', JBool (logInstallAttempts (config st)))]))
       \<and> configFile (saveConfig stringify
             (st\<lparr>config := (config st)\<lparr>password := secret, port := number\<rparr>\<rparr>))
           = configFile (saveConfig stringify st)"
proof -
  have "loadConfigRaw parse (configFile (saveConfig stringify st))
          = rawConfig ((config st)\<lparr>port := Num 18803, password := []\<rparr>)"
    using assms by (simp add: loadConfigRaw_def saveConfig_def spreadOver_saved)
  then have "loadConfig parse (configFile (saveConfig stringify st))
          = Inr ((config st)\<lparr>port := Num 18803, password := []\<rparr>)"
    by (simp add: loadConfig_def typedConfig_rawConfig)
  then show ?thesis
    by (simp add: saveConfig_def toSave_def)
qed

text \<open>
  A configuration with the password \<open>secret\<close> and the port 8080 is written as the text
  \<open>savedText\<close> and read back with the defaults in their place.
\<close>

theorem save_then_load_witness:
  "loadConfig sampleParse
     (configFile (saveConfig sampleStringify
        \<lparr>config = savedConfig, configFile = None, logDir = False, logFile = None\<rparr>))
   = Inr \<lparr>port = Num 18803, password = [], defaultPolicy = ''allow'',
          allowedUsers = [''alice''], deniedUsers = [], logInstallAttempts = False\<rparr>
   \<and> configFile (saveConfig sampleStringify
        \<lparr>config = savedConfig, configFile = None, logDir = False, logFile = None\<rparr>)
     = Some savedText"
proof -
  let ?st = "\<lparr>config = savedConfig, configFile = None, logDir = False, logFile = None\<rparr>"
  have written: "sampleStringify 2 (toSave (config ?st)) = savedText"
    by (simp add: sampleStringify_def)
  have "sampleParse savedText = Some (toSave savedConfig)"
    by (simp add: sampleParse_def savedText_def userIdBody_def allowedUsersBody_def
        userIdFiveBody_def defaultPolicyNullBody_def
        defaultPolicyBody_def dq_def toSave_def savedConfig_def)
  with written
  have inverse: "sampleParse (sampleStringify 2 (toSave (config ?st)))
                   = Some (toSave (config ?st))"
    by simp
  note spec = save_then_load [where parse = sampleParse and stringify = sampleStringify
      and st = ?st and secret = "[]" and number = "Num 0", OF inverse]
  from spec [THEN conjunct1]
  have loaded: "loadConfig sampleParse (configFile (saveConfig sampleStringify ?st))
      = Inr \<lparr>port = Num 18803, password = [], defaultPolicy = ''allow'',
             allowedUsers = [''alice''], deniedUsers = [], logInstallAttempts = False\<rparr>"
    by (simp add: savedConfig_def)
  have "configFile (saveConfig sampleStringify ?st) = Some savedText"
    using written by (simp add: saveConfig_def)
  with loaded show ?thesis by (rule conjI)
qed

text \<open>
  C9. \<open>GET /api/logs\<close>, served as admin, answers with \<open>getLogs\<close>, the read path that
  both source files have: 200 with at most 100 records, for every content of the log file
  and every behaviour of \<open>JSON.parse\<close>, and nothing changed. Every content is a sequence
  of lines ended by a line feed and a rest without one (empty, or a write that was cut
  off). The lines read are those that are not blank, the rest included, in the order of
  the file; \<open>content.trim()\<close> takes the white space off the start of the first and off the
  end of the last of them, and changes nothing when there is none. The records are the
  truthy values that \<open>JSON.parse\<close> gives for these lines, the last of the file first; a
  line that does not parse adds nothing. The cut to 100 comes after the reversal, so the
  records kept are the last 100 of the file.
\<close>

theorem logs_newest_first:
  assumes "methodOf req = ''GET''" and "pathname req = ''/api/logs''"
    and "isAdmin (authParam req) (rawPassword (config st))"
  shows "handleRequestRaw parse stringify now st req = Inr (st, getLogs parse st)
       \<and> getLogs parse st
           = sendJson (JObj [(''logs'',
               JArr (case logFile st of None \<Rightarrow> []
                     | Some content \<Rightarrow> readLogs parse content))]) 200
       \<and> length (case logFile st of None \<Rightarrow> []
                  | Some content \<Rightarrow> readLogs parse content) \<le> 100
       \<and> (\<exists>ls tail. (\<forall>l \<in> set ls. CHR 0x0A \<notin> set l) \<and> CHR 0x0A \<notin> set tail
             \<and> content = concat (map (\<lambda>l. l @ [CHR 0x0A]) ls) @ tail)
       \<and> ((\<forall>l \<in> set ls. CHR 0x0A \<notin> set l) \<and> CHR 0x0A \<notin> set tail \<longrightarrow>
           (let lines = filter (\<lambda>l. trim l \<noteq> []) (ls @ [tail]);
                first = dropWhile isWhiteSpace (hd lines) # tl lines;
                seen = (if lines = [] then []
                        else butlast first
                             @ [rev (dropWhile isWhiteSpace (rev (last first)))]);
                records = concat (map (\<lambda>line. case parse line of
                                                 None \<Rightarrow> []
                                               | Some v \<Rightarrow> if truthy v then [v] else [])
                                      seen)
            in readLogs parse (concat (map (\<lambda>l. l @ [CHR 0x0A]) ls) @ tail)
                 = take 100 (rev records)
               \<and> take 100 (rev records) = rev (drop (length records - 100) records)
               \<and> (lines = []
                   \<or> \<not> isWhiteSpace (hd (hd lines)) \<and> \<not> isWhiteSpace (last (last lines))
                  \<longrightarrow> seen = lines)))"
proof (intro conjI impI)
  show "handleRequestRaw parse stringify now st req = Inr (st, getLogs parse st)"
    using assms by (simp add: handleRequestRaw_def Let_def)
  show "getLogs parse st
      = sendJson (JObj [(''logs'',
          JArr (case logFile st of None \<Rightarrow> [] | Some content \<Rightarrow> readLogs parse content))]) 200"
    by (simp add: getLogs_def split: option.splits)
  show "length (case logFile st of None \<Rightarrow> []
                     | Some content \<Rightarrow> readLogs parse content) \<le> 100"
    by (simp add: readLogs_length split: option.splits)
  show "\<exists>ls tail. (\<forall>l \<in> set ls. CHR 0x0A \<notin> set l) \<and> CHR 0x0A \<notin> set tail
             \<and> content = concat (map (\<lambda>l. l @ [CHR 0x0A]) ls) @ tail"
  proof (intro exI conjI)
    let ?r = "split (CHR 0x0A) content"
    have r: "?r = butlast ?r @ [last ?r]"
      using split_nonempty [of "CHR 0x0A" content] by simp
    have free: "\<forall>l \<in> set ?r. CHR 0x0A \<notin> set l" by (rule split_free)
    then show "\<forall>l \<in> set (butlast ?r). CHR 0x0A \<notin> set l"
      by (auto dest: in_set_butlastD)
    from free r show "CHR 0x0A \<notin> set (last ?r)"
      by (metis last_in_set split_nonempty)
    show "content = concat (map (\<lambda>l. l @ [CHR 0x0A]) (butlast ?r)) @ last ?r"
      by (simp add: split_joined)
  qed
next
  assume free: "(\<forall>l \<in> set ls. CHR 0x0A \<notin> set l) \<and> CHR 0x0A \<notin> set tail"
  let ?lines = "filter (\<lambda>l. trim l \<noteq> []) (ls @ [tail])"
  let ?first = "dropWhile isWhiteSpace (hd ?lines) # tl ?lines"
  let ?seen = "if ?lines = [] then []
               else butlast ?first @ [rev (dropWhile isWhiteSpace (rev (last ?first)))]"
  let ?records = "concat (map (\<lambda>line. case parse line of
                                         None \<Rightarrow> []
                                       | Some v \<Rightarrow> if truthy v then [v] else []) ?seen)"
  from free have lines: "\<forall>l \<in> set ls. CHR 0x0A \<notin> set l" and tail: "CHR 0x0A \<notin> set tail"
    by blast+
  have read: "readLogs parse (concat (map (\<lambda>l. l @ [CHR 0x0A]) ls) @ tail)
      = take 100 (rev ?records)"
    using readLogs_lines [OF lines tail, of parse] unfolding Let_def .
  have newest: "take 100 (rev ?records) = rev (drop (length ?records - 100) ?records)"
    by (simp add: take_rev)
  have clean: "?seen = ?lines"
    if "?lines = []
        \<or> \<not> isWhiteSpace (hd (hd ?lines)) \<and> \<not> isWhiteSpace (last (last ?lines))"
  proof (cases "?lines = []")
    case True
    then show ?thesis by simp
  next
    case False
    moreover have "\<forall>l \<in> set ?lines. trim l \<noteq> []" by simp
    ultimately show ?thesis
      using that clean_ends [of ?lines] by (simp only: if_False) blast
  qed
  show "let lines = filter (\<lambda>l. trim l \<noteq> []) (ls @ [tail]);
            first = dropWhile isWhiteSpace (hd lines) # tl lines;
            seen = (if lines = [] then []
                    else butlast first
                         @ [rev (dropWhile isWhiteSpace (rev (last first)))]);
            records = concat (map (\<lambda>line. case parse line of
                                             None \<Rightarrow> []
                                           | Some v \<Rightarrow> if truthy v then [v] else [])
                                  seen)
        in readLogs parse (concat (map (\<lambda>l. l @ [CHR 0x0A]) ls) @ tail)
             = take 100 (rev records)
           \<and> take 100 (rev records) = rev (drop (length records - 100) records)
           \<and> (lines = []
               \<or> \<not> isWhiteSpace (hd (hd lines)) \<and> \<not> isWhiteSpace (last (last lines))
              \<longrightarrow> seen = lines)"
    unfolding Let_def using read newest clean by blast
qed

text \<open>
  A file of two records with a blank line between them and a record cut off in the middle
  at the end: the read returns the second record and then the first.
\<close>

theorem logs_newest_first_witness:
  "handleRequestRaw sampleParse sampleStringify []
     ((rawState sampleState)\<lparr>logFile := Some
        (concat (map (\<lambda>l. l @ [CHR 0x0A]) [userIdBody ''eve'', '' '', userIdBody ''bob''])
         @ truncatedLine)\<rparr>)
     \<lparr>reqMethod = ''GET'', pathname = ''/api/logs'', authParam = Some ''secret'',
      userIdParam = None, skillParam = None, reqBody = []\<rparr>
   = Inr ((rawState sampleState)\<lparr>logFile := Some
        (concat (map (\<lambda>l. l @ [CHR 0x0A]) [userIdBody ''eve'', '' '', userIdBody ''bob''])
         @ truncatedLine)\<rparr>,
          sendJson (JObj [(''logs'', JArr [JObj [(''userId'', JStr ''bob'')],
                                            JObj [(''userId'', JStr ''eve'')]])]) 200)"
proof -
  let ?ls = "[userIdBody ''eve'', '' '', userIdBody ''bob'']"
  let ?content = "concat (map (\<lambda>l. l @ [CHR 0x0A]) ?ls) @ truncatedLine"
  let ?st = "(rawState sampleState)\<lparr>logFile := Some ?content\<rparr>"
  let ?req = "\<lparr>reqMethod = ''GET'', pathname = ''/api/logs'', authParam = Some ''secret'',
               userIdParam = None, skillParam = None, reqBody = []\<rparr>"
  have route: "methodOf ?req = ''GET''" "pathname ?req = ''/api/logs''"
    "isAdmin (authParam ?req) (rawPassword (config ?st))"
    by (simp_all add: methodOf_def isAdmin_def rawState_def rawConfig_def sampleState_def)
  have free: "(\<forall>l \<in> set ?ls. CHR 0x0A \<notin> set l) \<and> CHR 0x0A \<notin> set truncatedLine"
    by (simp add: userIdBody_def truncatedLine_def dq_def)
  have kept: "filter (\<lambda>l. trim l \<noteq> []) (?ls @ [truncatedLine])
                = [userIdBody ''eve'', userIdBody ''bob'', truncatedLine]"
    by (simp add: userIdBody_def truncatedLine_def dq_def trim_def isWhiteSpace_def)
  have ends: "dropWhile isWhiteSpace (userIdBody ''eve'') = userIdBody ''eve''"
    "rev (dropWhile isWhiteSpace (rev truncatedLine)) = truncatedLine"
    by (simp_all add: userIdBody_def truncatedLine_def dq_def isWhiteSpace_def)
  have parsed: "sampleParse (userIdBody ''eve'') = Some (JObj [(''userId'', JStr ''eve'')])"
    "sampleParse truncatedLine = None"
    "sampleParse (userIdBody ''bob'') = Some (JObj [(''userId'', JStr ''bob'')])"
    by (simp_all add: sampleParse_def userIdBody_def truncatedLine_def dq_def
        userIdFiveBody_def defaultPolicyNullBody_def
        allowedUsersBody_def defaultPolicyBody_def savedText_def)
  note spec = logs_newest_first [OF route, of sampleParse sampleStringify "[]"]
  from spec [of _ ?ls truncatedLine, THEN conjunct2, THEN conjunct2, THEN conjunct2,
      THEN conjunct2] free
  have "readLogs sampleParse ?content
      = [JObj [(''userId'', JStr ''bob'')], JObj [(''userId'', JStr ''eve'')]]"
    by (simp only: Let_def kept) (simp add: ends parsed)
  moreover from spec [of "[]" "[]" "[]"]
  have "handleRequestRaw sampleParse sampleStringify [] ?st ?req
      = Inr (?st, sendJson (JObj [(''logs'', JArr (readLogs sampleParse ?content))]) 200)"
    by simp
  ultimately show ?thesis by (simp only:)
qed

text \<open>
  C10. An admin \<open>PUT /api/config\<close> whose body parses to anything but \<open>null\<close> completes
  and answers 200: each of \<open>defaultPolicy\<close>, \<open>allowedUsers\<close>, \<open>deniedUsers\<close> and
  \<open>logInstallAttempts\<close> that the body has is stored as given, whatever JSON value it is,
  the other fields stay (the port and the password are never read from the body), and the
  file is written from the new values. With a \<open>defaultPolicy\<close> that is anything but the
  string \<open>allow\<close>, \<open>canInstallSkill\<close> denies, with the reason of the default policy, every
  identity for which the search finds no match in either list.
\<close>

theorem put_config_unvalidated:
  assumes "methodOf req = ''PUT''" and "pathname req = ''/api/config''"
    and "isAdmin (authParam req) (rawPassword (config st))"
    and "parse (reqBody req) = Some updates" and "ownProps updates = Inr own"
  shows "(\<exists>st' response.
            handleRequestRaw parse stringify now st req = Inr (st', response)
          \<and> status response = 200
          \<and> rawDefaultPolicy (config st')
              = (case own ''defaultPolicy'' of
                   None \<Rightarrow> rawDefaultPolicy (config st) | Some v \<Rightarrow> v)
          \<and> rawAllowedUsers (config st')
              = (case own ''allowedUsers'' of
                   None \<Rightarrow> rawAllowedUsers (config st) | Some v \<Rightarrow> v)
          \<and> rawDeniedUsers (config st')
              = (case own ''deniedUsers'' of
                   None \<Rightarrow> rawDeniedUsers (config st) | Some v \<Rightarrow> v)
          \<and> rawLogInstallAttempts (config st')
              = (case own ''logInstallAttempts'' of
                   None \<Rightarrow> rawLogInstallAttempts (config st) | Some v \<Rightarrow> v)
          \<and> rawPort (config st') = rawPort (config st)
          \<and> rawPassword (config st') = rawPassword (config st)
          \<and> configFile st' = Some (stringify 2 (toSaveRaw (config st')))
          \<and> body response = Some (JObj [(''success'', JBool True),
                                         (''config'', configJson (config st'))]))
       \<and> (\<forall>c userId.
            rawDefaultPolicy c \<noteq> JStr ''allow''
            \<and> someMatch stringify (normalizeUserId userId) (rawDeniedUsers c) = Inr False
            \<and> someMatch stringify (normalizeUserId userId) (rawAllowedUsers c) = Inr False
            \<longrightarrow> canInstallSkillRaw stringify c userId
                  = Inr \<lparr>allowed = False,
                         reason = ''Standard-Richtlinie: Verweigert (nur Whitelist-Benutzer)''\<rparr>)
       \<and> (\<forall>c userId ds as.
            rawDefaultPolicy c \<noteq> JStr ''allow''
            \<and> rawDeniedUsers c = JArr (map JStr ds) \<and> rawAllowedUsers c = JArr (map JStr as)
            \<and> \<not> (\<exists>u \<in> set ds. matchesEntry (normalizeUserId userId) u)
            \<and> \<not> (\<exists>u \<in> set as. matchesEntry (normalizeUserId userId) u)
            \<longrightarrow> canInstallSkillRaw stringify c userId
                  = Inr \<lparr>allowed = False,
                         reason = ''Standard-Richtlinie: Verweigert (nur Whitelist-Benutzer)''\<rparr>)"
proof (intro conjI allI impI)
  have route: "handleRequestRaw parse stringify now st req
                 = Inr (updateConfig parse stringify st (reqBody req))"
    using assms(1-3) by (simp add: handleRequestRaw_def Let_def)
  note fields = updateConfig_fields [of parse "reqBody req" updates own stringify st,
      OF assms(4,5)]
  show "\<exists>st' response.
            handleRequestRaw parse stringify now st req = Inr (st', response)
          \<and> status response = 200
          \<and> rawDefaultPolicy (config st')
              = (case own ''defaultPolicy'' of
                   None \<Rightarrow> rawDefaultPolicy (config st) | Some v \<Rightarrow> v)
          \<and> rawAllowedUsers (config st')
              = (case own ''allowedUsers'' of
                   None \<Rightarrow> rawAllowedUsers (config st) | Some v \<Rightarrow> v)
          \<and> rawDeniedUsers (config st')
              = (case own ''deniedUsers'' of
                   None \<Rightarrow> rawDeniedUsers (config st) | Some v \<Rightarrow> v)
          \<and> rawLogInstallAttempts (config st')
              = (case own ''logInstallAttempts'' of
                   None \<Rightarrow> rawLogInstallAttempts (config st) | Some v \<Rightarrow> v)
          \<and> rawPort (config st') = rawPort (config st)
          \<and> rawPassword (config st') = rawPassword (config st)
          \<and> configFile st' = Some (stringify 2 (toSaveRaw (config st')))
          \<and> body response = Some (JObj [(''success'', JBool True),
                                         (''config'', configJson (config st'))])"
    unfolding route fields
    by (simp add: saveConfigRaw_def sendJson_def override_case)
next
  fix c :: RawConfig and userId
  assume "rawDefaultPolicy c \<noteq> JStr ''allow''
            \<and> someMatch stringify (normalizeUserId userId) (rawDeniedUsers c) = Inr False
            \<and> someMatch stringify (normalizeUserId userId) (rawAllowedUsers c) = Inr False"
  then show "canInstallSkillRaw stringify c userId
                  = Inr \<lparr>allowed = False,
                         reason = ''Standard-Richtlinie: Verweigert (nur Whitelist-Benutzer)''\<rparr>"
    by (simp add: canInstallSkillRaw_def Let_def)
next
  fix c :: RawConfig and userId ds as
  assume "rawDefaultPolicy c \<noteq> JStr ''allow''
            \<and> rawDeniedUsers c = JArr (map JStr ds) \<and> rawAllowedUsers c = JArr (map JStr as)
            \<and> \<not> (\<exists>u \<in> set ds. matchesEntry (normalizeUserId userId) u)
            \<and> \<not> (\<exists>u \<in> set as. matchesEntry (normalizeUserId userId) u)"
  then show "canInstallSkillRaw stringify c userId
                  = Inr \<lparr>allowed = False,
                         reason = ''Standard-Richtlinie: Verweigert (nur Whitelist-Benutzer)''\<rparr>"
    by (simp add: canInstallSkillRaw_def Let_def someValue_strings list_ex_iff)
qed

text \<open>
  The body \<open>{"defaultPolicy":"maybe"}\<close> sets the default policy to \<open>maybe\<close>, which is
  neither \<open>allow\<close> nor \<open>deny\<close>, and the body \<open>{"defaultPolicy":null}\<close> sets it to
  \<open>null\<close>; both are answered 200, and \<open>bob\<close>, on neither list, is then denied.
\<close>

theorem put_config_unvalidated_witness:
  "\<not> isl (handleRequestRaw sampleParse sampleStringify [] (rawState sampleState)
         \<lparr>reqMethod = ''PUT'', pathname = ''/api/config'', authParam = Some ''secret'',
          userIdParam = None, skillParam = None, reqBody = defaultPolicyBody ''maybe''\<rparr>)
   \<and> rawDefaultPolicy (config (fst (projr (handleRequestRaw sampleParse sampleStringify []
         (rawState sampleState)
         \<lparr>reqMethod = ''PUT'', pathname = ''/api/config'', authParam = Some ''secret'',
          userIdParam = None, skillParam = None, reqBody = defaultPolicyBody ''maybe''\<rparr>))))
       = JStr ''maybe''
   \<and> ''maybe'' \<noteq> ''allow'' \<and> ''maybe'' \<noteq> ''deny''
   \<and> canInstallSkillRaw sampleStringify
         (config (fst (projr (handleRequestRaw sampleParse sampleStringify []
            (rawState sampleState)
            \<lparr>reqMethod = ''PUT'', pathname = ''/api/config'', authParam = Some ''secret'',
             userIdParam = None, skillParam = None,
             reqBody = defaultPolicyBody ''maybe''\<rparr>)))) ''bob''
       = Inr \<lparr>allowed = False,
              reason = ''Standard-Richtlinie: Verweigert (nur Whitelist-Benutzer)''\<rparr>
   \<and> \<not> isl (handleRequestRaw sampleParse sampleStringify [] (rawState sampleState)
         \<lparr>reqMethod = ''PUT'', pathname = ''/api/config'', authParam = Some ''secret'',
          userIdParam = None, skillParam = None, reqBody = defaultPolicyNullBody\<rparr>)
   \<and> status (snd (projr (handleRequestRaw sampleParse sampleStringify []
         (rawState sampleState)
         \<lparr>reqMethod = ''PUT'', pathname = ''/api/config'', authParam = Some ''secret'',
          userIdParam = None, skillParam = None, reqBody = defaultPolicyNullBody\<rparr>))) = 200
   \<and> rawDefaultPolicy (config (fst (projr (handleRequestRaw sampleParse sampleStringify []
         (rawState sampleState)
         \<lparr>reqMethod = ''PUT'', pathname = ''/api/config'', authParam = Some ''secret'',
          userIdParam = None, skillParam = None, reqBody = defaultPolicyNullBody\<rparr>))))
       = JNull
   \<and> canInstallSkillRaw sampleStringify
         (config (fst (projr (handleRequestRaw sampleParse sampleStringify []
            (rawState sampleState)
            \<lparr>reqMethod = ''PUT'', pathname = ''/api/config'', authParam = Some ''secret'',
             userIdParam = None, skillParam = None,
             reqBody = defaultPolicyNullBody\<rparr>)))) ''bob''
       = Inr \<lparr>allowed = False,
              reason = ''Standard-Richtlinie: Verweigert (nur Whitelist-Benutzer)''\<rparr>"
proof -
  let ?st = "rawState sampleState"
  let ?maybe = "\<lparr>reqMethod = ''PUT'', pathname = ''/api/config'',
               authParam = Some ''secret'', userIdParam = None, skillParam = None,
               reqBody = defaultPolicyBody ''maybe''\<rparr>"
  let ?null = "\<lparr>reqMethod = ''PUT'', pathname = ''/api/config'',
               authParam = Some ''secret'', userIdParam = None, skillParam = None,
               reqBody = defaultPolicyNullBody\<rparr>"
  have route: "methodOf r = ''PUT''" "pathname r = ''/api/config''"
    "isAdmin (authParam r) (rawPassword (config ?st))"
    if "r = ?maybe \<or> r = ?null" for r
    using that
    by (auto simp add: methodOf_def isAdmin_def rawState_def rawConfig_def sampleState_def)
  have parsed: "sampleParse (reqBody ?maybe) = Some (JObj [(''defaultPolicy'', JStr ''maybe'')])"
    "sampleParse (reqBody ?null) = Some (JObj [(''defaultPolicy'', JNull)])"
    by (simp_all add: sampleParse_def defaultPolicyBody_def defaultPolicyNullBody_def
        userIdBody_def userIdFiveBody_def allowedUsersBody_def dq_def)
  have props: "ownProps (JObj [(''defaultPolicy'', v)]) = Inr (map_of [(''defaultPolicy'', v)])"
    for v
    by simp
  have before: "rawDeniedUsers (config ?st) = JArr (map JStr [''mallory''])"
    "rawAllowedUsers (config ?st) = JArr (map JStr [''eve''])"
    by (simp_all add: rawState_def rawConfig_def sampleState_def)
  have nomatch: "\<not> (\<exists>u \<in> set [''mallory'']. matchesEntry (normalizeUserId ''bob'') u)"
    "\<not> (\<exists>u \<in> set [''eve'']. matchesEntry (normalizeUserId ''bob'') u)"
    by (simp_all add: matchesEntry_def normalizeUserId_def)
  have outcome: "\<not> isl (handleRequestRaw sampleParse sampleStringify [] ?st r)
      \<and> status (snd (projr (handleRequestRaw sampleParse sampleStringify [] ?st r))) = 200
      \<and> rawDefaultPolicy (config (fst (projr
            (handleRequestRaw sampleParse sampleStringify [] ?st r)))) = v
      \<and> canInstallSkillRaw sampleStringify
            (config (fst (projr (handleRequestRaw sampleParse sampleStringify [] ?st r))))
            ''bob''
          = Inr \<lparr>allowed = False,
                 reason = ''Standard-Richtlinie: Verweigert (nur Whitelist-Benutzer)''\<rparr>"
    if r: "r = ?maybe \<or> r = ?null"
      and body: "sampleParse (reqBody r) = Some (JObj [(''defaultPolicy'', v)])"
      and v: "v \<noteq> JStr ''allow''" for r v
  proof -
    note spec = put_config_unvalidated
      [where parse = sampleParse and stringify = sampleStringify and now = "[]"
         and st = ?st and req = r, OF route [OF r] body props]
    from spec [THEN conjunct1] obtain st' response
      where run: "handleRequestRaw sampleParse sampleStringify [] ?st r = Inr (st', response)"
        and ok: "status response = 200"
        and policy: "rawDefaultPolicy (config st') = v"
        and lists: "rawAllowedUsers (config st') = rawAllowedUsers (config ?st)"
          "rawDeniedUsers (config st') = rawDeniedUsers (config ?st)"
      by (elim exE conjE) simp
    from lists before
    have lists': "rawDeniedUsers (config st') = JArr (map JStr [''mallory''])"
      "rawAllowedUsers (config st') = JArr (map JStr [''eve''])"
      by (simp_all only:)
    from policy v have "rawDefaultPolicy (config st') \<noteq> JStr ''allow''"
      by simp
    with spec [THEN conjunct2, THEN conjunct2, rule_format,
        of "config st'" "[''mallory'']" "[''eve'']" "''bob''"] lists' nomatch
    have "canInstallSkillRaw sampleStringify (config st') ''bob''
          = Inr \<lparr>allowed = False,
                 reason = ''Standard-Richtlinie: Verweigert (nur Whitelist-Benutzer)''\<rparr>"
      by blast
    with run ok policy show ?thesis by simp
  qed
  from outcome [of ?maybe "JStr ''maybe''"] outcome [of ?null JNull] parsed
  show ?thesis by simp
qed

end
